theory Spec2Isabelle
  imports Complex_Main
begin

section \<open>Data model of the menu editor (src/prefs/MenuEditor.js)\<close>

text \<open>
  The menu editor is a container widget with two display modes: the menu overview (a grid
  of top-level menus, no center item) and the menu edit mode (the children of one menu on
  a circle around a center item). Numbers of the source are JavaScript doubles; they are
  modelled as reals (pointer coordinates, angles, pixel offsets), as integers (widget
  width and height, frame-clock time, rows and columns) or as naturals (list indices).
  A value that can be \<open>null\<close> or \<open>undefined\<close> in the source is an option.
\<close>

datatype ItemState = GRID | CENTER | CHILD

text \<open>\<open>const ItemSize = [130, 120, 100]\<close>, indexed by the item state.\<close>

fun ItemSize :: "ItemState \<Rightarrow> int" where
  "ItemSize GRID = 130"
| "ItemSize CENTER = 120"
| "ItemSize CHILD = 100"

datatype TransitionType =
  NONE | TRANSITION_A | TRANSITION_B | TRANSITION_C | TRANSITION_D | TRANSITION_E

definition TRANSITION_DURATION :: int where
  "TRANSITION_DURATION = 350"

text \<open>
  A menu configuration, as far as the editor reads it: \<open>name\<close>, \<open>icon\<close>, \<open>type\<close>
  and the optional fixed \<open>angle\<close>.
\<close>

record config =
  name :: string
  icon :: string
  itemType :: string
  angle :: "real option"

text \<open>
  An \<open>AnimatedValue\<close> (\<open>src/prefs/AnimatedValue.js\<close>, not among the sources) with the four
  properties the editor assigns: \<open>start\<close>, \<open>end\<close>, \<open>startTime\<close> and \<open>endTime\<close>. The start
  and the end are pixel coordinates; a coordinate that is not a finite number (\<open>NaN\<close> or
  an infinity) is \<open>None\<close>.
\<close>

record animated =
  startValue :: "real option"
  endValue :: "real option"
  startTime :: real
  endTime :: real

text \<open>
  A \<open>FlyPieMenuEditorItem\<close>: its configuration, its state, the two widget properties
  \<open>setItems\<close> changes when the item is superseded, and its animated position. The
  constructor of the item does not create the properties \<open>x\<close> and \<open>y\<close>; a layout pass
  creates both together the first time it positions the item. Until then they are
  \<open>undefined\<close> (\<open>None\<close>).
\<close>

record item =
  getConfig :: config
  state :: ItemState
  reveal_child :: bool
  sensitive :: bool
  xy :: "(animated \<times> animated) option"

text \<open>
  \<open>_selectedItem\<close> refers to one of the current items or to the center item. Of the back
  button the model keeps the animated position, \<open>undefined\<close> before the first layout
  pass. The fields \<open>_columnCount\<close>, \<open>_rowCount\<close>, \<open>_gridOffsetX\<close>, \<open>_gridOffsetY\<close>,
  \<open>_width\<close> and \<open>_height\<close> are numbers here: the constructor leaves them \<open>undefined\<close>
  and a layout pass sets them before the widget can receive any event that reads them.
\<close>

datatype selection = SelectedItem nat | SelectedCenter

record editor =
  items :: "item list"
  centerItem :: "item option"
  backButton :: "(animated \<times> animated) option"
  selectedItem :: "selection option"
  oldItems :: "item list"
  lastHideTime :: int
  restartAnimation :: bool
  upcomingTransition :: TransitionType
  transitionAngle :: "real option"
  parentAngle :: "real option"
  dragIndex :: "nat option"
  dropIndex :: "nat option"
  dropRow :: "int option"
  dropColumn :: "int option"
  lastDropIndex :: "nat option"
  columnCount :: int
  rowCount :: int
  gridOffsetX :: real
  gridOffsetY :: real
  width :: int
  height :: int

text \<open>\<open>_inMenuOverviewMode()\<close>: \<open>return this._centerItem == null\<close>.\<close>

definition inMenuOverviewMode :: "editor \<Rightarrow> bool" where
  "inMenuOverviewMode s = (centerItem s = None)"

section \<open>The angle solver, a collaborator\<close>

text \<open>
  \<open>utils.computeItemAngles(items, parentAngle)\<close> lives in \<open>src/common/utils.js\<close>, which is
  not among the sources. The editor's own functions take it as a parameter: it receives
  one entry per item (\<open>Some a\<close> for the entry \<open>{angle: a}\<close>, \<open>None\<close> for the empty entry
  \<open>{}\<close>) and the parent angle, and returns the list of angles.
\<close>

type_synonym solver = "real option list \<Rightarrow> real option \<Rightarrow> real list"

text \<open>
  JavaScript's \<open>%\<close> on doubles: the remainder has the sign of the dividend (the quotient
  is truncated towards zero).
\<close>

definition js_rem :: "real \<Rightarrow> real \<Rightarrow> real" where
  "js_rem x m =
     (if 0 \<le> x / m then x - m * of_int \<lfloor>x / m\<rfloor> else x - m * of_int \<lceil>x / m\<rceil>)"

text \<open>
  Modelled from the spec: the angle solver \<open>utils.computeItemAngles\<close> (spec section 4.1),
  whose implementation is missing from the sources. The spec's words, in order:
  zero items give the empty result; an item with a fixed angle keeps it; the items
  without a fixed angle are distributed evenly over the angular range between the fixed
  items next to them (the range ends 360 degrees later when it wraps), in list order;
  when no item is fixed they are distributed evenly around the whole circle; a given
  parent angle is reserved, and the items are distributed over the rest of the circle.

  Where the spec leaves a choice open the model makes the plainest one: with nothing
  fixed and no parent angle the first item is at 0 degrees (up); with nothing fixed and a
  parent angle \<open>p\<close> the circle is cut into \<open>N + 1\<close> equal parts starting at \<open>p\<close>, the
  first of which stays empty; with fixed items and a parent angle, the range that holds
  the parent angle gets one more part, left empty where the parent angle falls.
\<close>

text \<open>The indices of the entries with a fixed angle, with their angles.\<close>

definition fixedEntries :: "real option list \<Rightarrow> (nat \<times> real) list" where
  "fixedEntries es =
     concat (map (\<lambda>(i, e). case e of None \<Rightarrow> [] | Some a \<Rightarrow> [(i, a)]) (enumerate 0 es))"

text \<open>
  The fixed entry before index \<open>i\<close> (the last one of the list when none is before) and the
  fixed entry after it (the first one of the list when none is after).
\<close>

definition wedgeBegin :: "(nat \<times> real) list \<Rightarrow> nat \<Rightarrow> nat \<times> real" where
  "wedgeBegin fs i =
     (case filter (\<lambda>(j, a). j < i) fs of [] \<Rightarrow> last fs | b # bs \<Rightarrow> last (b # bs))"

definition wedgeEnd :: "(nat \<times> real) list \<Rightarrow> nat \<Rightarrow> nat \<times> real" where
  "wedgeEnd fs i =
     (case filter (\<lambda>(j, a). i < j) fs of [] \<Rightarrow> hd fs | e # es \<Rightarrow> e)"

text \<open>
  The angle of the free item at index \<open>i\<close> of \<open>n\<close> items, between the fixed entries
  \<open>fs\<close> (not empty).
\<close>

definition freeAngle :: "nat \<Rightarrow> (nat \<times> real) list \<Rightarrow> real option \<Rightarrow> nat \<Rightarrow> real" where
  "freeAngle n fs parent i =
     (let (bi, ba) = wedgeBegin fs i;
          (ei, ea0) = wedgeEnd fs i;
          ea = (if ea0 \<le> ba then ea0 + 360 else ea0);
          count = (if bi < ei then ei - bi - 1 else n + ei - bi - 1);
          k = (if bi < i then i - bi else n + i - bi);
          inside = (case parent of
                      None \<Rightarrow> None
                    | Some p \<Rightarrow> if ba < p \<and> p < ea then Some p
                               else if ba < p + 360 \<and> p + 360 < ea then Some (p + 360)
                               else None)
      in case inside of
           None \<Rightarrow> js_rem (ba + real k * ((ea - ba) / real (count + 1))) 360
         | Some p \<Rightarrow>
             (let gap = (ea - ba) / real (count + 2);
                  slot = (if ba + real k * gap + gap / 2 \<le> p then k else k + 1)
              in js_rem (ba + real slot * gap) 360))"

definition utils_computeItemAngles :: solver where
  "utils_computeItemAngles es parent =
     (let n = length es; fs = fixedEntries es in
      if n = 0 then []
      else if fs = [] then
        (case parent of
           None \<Rightarrow> map (\<lambda>i. real i * (360 / real n)) [0..<n]
         | Some p \<Rightarrow> map (\<lambda>i. js_rem (p + real (i + 1) * (360 / real (n + 1))) 360) [0..<n])
      else map (\<lambda>i. case es ! i of Some a \<Rightarrow> a | None \<Rightarrow> freeAngle n fs parent i) [0..<n])"

section \<open>The editor's \<open>_computeItemAngles\<close>\<close>

text \<open>
  The entry pushed for an item: \<open>{angle: a}\<close> if \<open>item.getConfig().angle >= 0\<close>, the empty
  entry otherwise (also when the configuration has no angle).
\<close>

definition angleEntry :: "item \<Rightarrow> real option" where
  "angleEntry it =
     (case angle (getConfig it) of
        None \<Rightarrow> None
      | Some a \<Rightarrow> if a \<ge> 0 then Some a else None)"

text \<open>
  The \<open>forEach\<close> loop that fills \<open>fixedAngles\<close>: at index \<open>i\<close> an artificial empty entry is
  pushed first if the drop gap is there, then the item's entry unless the item is the
  dragged one. After the loop an artificial entry is appended if the drop index is the
  number of items.
\<close>

fun fixedAnglesFrom :: "nat \<Rightarrow> item list \<Rightarrow> nat option \<Rightarrow> nat option \<Rightarrow> real option list" where
  "fixedAnglesFrom i [] drag dropI = []"
| "fixedAnglesFrom i (it # its) drag dropI =
     (if dropI = Some i then [None] else [])
     @ (if drag = Some i then [] else [angleEntry it])
     @ fixedAnglesFrom (Suc i) its drag dropI"

definition fixedAngles :: "editor \<Rightarrow> real option list" where
  "fixedAngles s =
     fixedAnglesFrom 0 (items s) (dragIndex s) (dropIndex s)
     @ (if dropIndex s = Some (length (items s)) then [None] else [])"

text \<open>
  \<open>Array.prototype.splice\<close> as the function uses it: \<open>splice(i, 1)\<close> removes the element at
  \<open>i\<close> and removes nothing when \<open>i\<close> is not an index of the array; \<open>splice(i, 0, v)\<close>
  inserts \<open>v\<close> before index \<open>i\<close>, at the end when \<open>i\<close> is beyond it.
\<close>

definition spliceRemove :: "nat \<Rightarrow> 'a list \<Rightarrow> 'a list" where
  "spliceRemove i xs = take i xs @ drop (Suc i) xs"

definition spliceInsert :: "nat \<Rightarrow> 'a \<Rightarrow> 'a list \<Rightarrow> 'a list" where
  "spliceInsert i v xs = take i xs @ [v] @ drop i xs"

text \<open>
  Reading \<open>xs[i % xs.length]\<close>: on the empty array the index is \<open>NaN\<close> and the read gives
  \<open>undefined\<close> (\<open>None\<close>).
\<close>

definition readModLength :: "'a option list \<Rightarrow> nat \<Rightarrow> 'a option" where
  "readModLength xs i = (if length xs = 0 then None else xs ! (i mod length xs))"

text \<open>
  \<open>_computeItemAngles()\<close>. The returned array can hold \<open>undefined\<close>, so its elements are
  options.
\<close>

definition computeItemAngles :: "solver \<Rightarrow> editor \<Rightarrow> real option list" where
  "computeItemAngles solve s =
     (let angles = map Some (solve (fixedAngles s) (parentAngle s));
          angles1 =
            (case dropIndex s of
               None \<Rightarrow> angles
             | Some d \<Rightarrow>
                 (let removeIndex =
                        (case dragIndex s of
                           None \<Rightarrow> d
                         | Some g \<Rightarrow> if d > g + 1 then d - 1 else d)
                  in spliceRemove removeIndex angles))
      in case dragIndex s of
           None \<Rightarrow> angles1
         | Some g \<Rightarrow> spliceInsert g (readModLength angles1 g) angles1)"

section \<open>The drop target: the handlers of \<open>leave\<close> and \<open>drop\<close>\<close>

text \<open>
  The exceptions of the source: a \<open>TypeError\<close> from reading a property of \<open>null\<close> or
  \<open>undefined\<close>, a \<open>SyntaxError\<close> from \<open>JSON.parse\<close>.
\<close>

datatype js_error = TypeError | SyntaxError

text \<open>The signals the drop handler emits, with their arguments.\<close>

datatype signal =
  Notification string
| DropItem string nat
| DropData string nat

text \<open>
  What the drop handler reads from the toolkit: the dropped string \<open>what\<close>; whether the
  drag started inside the application (\<open>t.get_drop().get_drag() != null\<close>); whether the
  drop offers the MIME type \<open>text/uri-list\<close>.
\<close>

record dropEvent =
  what :: string
  internalDrag :: bool
  hasUriList :: bool

text \<open>
  For an internal drag the handler parses the dropped string and, in overview mode,
  looks its item type up: \<open>const config = JSON.parse(what)\<close>, then
  \<open>ItemRegistry.getItemTypes()[config.type].class != ItemClass.MENU\<close>. \<open>JSON.parse\<close> and the
  item registry are not among the sources; the handler takes what they do with a string
  as a parameter. \<open>JSON.parse\<close> throws a \<open>SyntaxError\<close> on a string that is not JSON
  (\<open>InvalidJSON\<close>). The lookup throws a \<open>TypeError\<close> when the parsed value is \<open>null\<close> or
  its type is not in the registry (\<open>UnknownType\<close>). Otherwise the type has a class, which
  is \<open>ItemClass.MENU\<close> or not (\<open>KnownType\<close>).
\<close>

datatype parsedItem = InvalidJSON | UnknownType | KnownType bool

text \<open>The \<open>leave\<close> handler; \<open>updateLayout()\<close> sets \<open>_restartAnimation\<close>.\<close>

definition dropTarget_leave :: "editor \<Rightarrow> editor" where
  "dropTarget_leave s =
     s\<lparr>lastDropIndex := dropIndex s, dropColumn := None, dropRow := None,
       dropIndex := None, restartAnimation := True\<rparr>"

text \<open>\<open>what.split(/\r?\n/)\<close>: a line ends at a line feed, with the carriage return before it.\<close>

fun splitLinesFrom :: "string \<Rightarrow> string \<Rightarrow> string list" where
  "splitLinesFrom cur [] = [rev cur]"
| "splitLinesFrom cur [c] = (if c = CHR 0x0A then [rev cur, []] else [rev (c # cur)])"
| "splitLinesFrom cur (c # d # cs) =
     (if c = CHR 0x0A then rev cur # splitLinesFrom [] (d # cs)
      else if c = CHR 0x0D \<and> d = CHR 0x0A then rev cur # splitLinesFrom [] cs
      else splitLinesFrom (c # cur) (d # cs))"

definition splitLines :: "string \<Rightarrow> string list" where
  "splitLines w = splitLinesFrom [] w"

text \<open>
  \<open>forEach((line, i) => { if (line != '') this.emit('drop-data', line, this._dropIndex + i) })\<close>
\<close>

fun dropDataLines :: "nat \<Rightarrow> nat \<Rightarrow> string list \<Rightarrow> signal list" where
  "dropDataLines k i [] = []"
| "dropDataLines k i (l # ls) =
     (if l \<noteq> [] then [DropData l (k + i)] else []) @ dropDataLines k (Suc i) ls"

text \<open>
  The \<open>drop\<close> handler: what it returns or throws, the signals it has emitted by then, in
  order, and the state it leaves. An exception leaves the restored \<open>_dropIndex\<close> in
  place.
\<close>

definition dropTarget_drop ::
  "(string \<Rightarrow> parsedItem) \<Rightarrow> dropEvent \<Rightarrow> editor \<Rightarrow> (js_error + bool) \<times> signal list \<times> editor"
where
  "dropTarget_drop parseItem ev s0 =
     (let s = (if dropIndex s0 = None then s0\<lparr>dropIndex := lastDropIndex s0\<rparr> else s0);
          cleared = s\<lparr>dropColumn := None, dropRow := None, dropIndex := None\<rparr>
      in case dropIndex s of
           None \<Rightarrow> (Inr False, [], s)
         | Some k \<Rightarrow>
             if internalDrag ev then
               (case parseItem (what ev) of
                  InvalidJSON \<Rightarrow> (Inl SyntaxError, [], s)
                | UnknownType \<Rightarrow>
                    if inMenuOverviewMode s then (Inl TypeError, [], s)
                    else (Inr True, [DropItem (what ev) k], cleared)
                | KnownType isMenu \<Rightarrow>
                    if inMenuOverviewMode s \<and> \<not> isMenu
                    then (Inr False,
                          [Notification ''Actions cannot be turned into toplevel menus.''],
                          cleared)
                    else (Inr True, [DropItem (what ev) k], cleared))
             else if inMenuOverviewMode s
               then (Inr False,
                     [Notification ''You can only create new Action items inside of Custom Menus.''],
                     cleared)
             else if hasUriList ev
               then (Inr True, dropDataLines k 0 (splitLines (what ev)), cleared)
             else (Inr True, [DropData (what ev) k], cleared))"

section \<open>The drop target: the handler of \<open>motion\<close>\<close>

text \<open>
  The overview branch: the pointer is made relative to the grid, clamped to the grid
  bounds, and is in a drop zone when it is within a quarter of an item of a column
  boundary.
\<close>

definition clampToGrid :: "int \<Rightarrow> real \<Rightarrow> real" where
  "clampToGrid cells v = max 0 (min (real_of_int (cells * ItemSize GRID)) v)"

definition inDropZone :: "real \<Rightarrow> bool" where
  "inDropZone x =
     (let dropZoneWidth = real_of_int (ItemSize GRID) / 4 in
      js_rem x (real_of_int (ItemSize GRID)) < dropZoneWidth
      \<or> js_rem x (real_of_int (ItemSize GRID)) > real_of_int (ItemSize GRID) - dropZoneWidth)"

definition motionOverview :: "real \<Rightarrow> real \<Rightarrow> editor \<Rightarrow> editor" where
  "motionOverview px py s =
     (let x = clampToGrid (columnCount s) (px - gridOffsetX s);
          y = clampToGrid (rowCount s) (py - gridOffsetY s)
      in if inDropZone x then
           (let column = \<lfloor>x / real_of_int (ItemSize GRID) + 0.5\<rfloor>;
                row = \<lfloor>y / real_of_int (ItemSize GRID)\<rfloor>
            in s\<lparr>dropColumn := Some column, dropRow := Some row,
                 dropIndex := Some (nat (min (int (length (items s)))
                                             (columnCount s * row + column)))\<rparr>)
         else s\<lparr>dropColumn := None, dropRow := None, dropIndex := None\<rparr>)"

text \<open>
  The edit branch. The angle between center-pointer and center-up, in degrees, clockwise:
\<close>

definition pointerAngle :: "real \<Rightarrow> real \<Rightarrow> real" where
  "pointerAngle x y =
     (let distance = sqrt (x * x + y * y);
          a = arccos (x / distance) * 180 / pi;
          b = (if y < 0 then 360 - a else a)
      in js_rem (b + 90) 360)"

text \<open>
  \<open>mouseAngle - itemAngles[0] < 90 || mouseAngle - itemAngles[0] > 270\<close>; both comparisons
  are false when the angle is \<open>undefined\<close>.
\<close>

definition beforeItem :: "real \<Rightarrow> real option \<Rightarrow> bool" where
  "beforeItem mouseAngle a0 =
     (case a0 of None \<Rightarrow> False | Some a \<Rightarrow> mouseAngle - a < 90 \<or> mouseAngle - a > 270)"

definition wedgePadding :: "item \<Rightarrow> real" where
  "wedgePadding it = (if itemType (getConfig it) = ''CustomMenu'' then 0.25 else 0)"

text \<open>
  The loop over the drop zone wedges, for the indices still to visit. Reading the
  configuration of an item that does not exist throws.
\<close>

fun wedgeLoop ::
  "real \<Rightarrow> real option list \<Rightarrow> item list \<Rightarrow> nat option \<Rightarrow> nat list \<Rightarrow> js_error + nat option"
where
  "wedgeLoop mouseAngle angs its drag [] = Inr None"
| "wedgeLoop mouseAngle angs its drag (i # rest) =
     (let n = length angs; j = Suc i mod n in
      if \<not> (i < length its \<and> j < length its) then Inl TypeError
      else
        (let wedgeStartPadding = wedgePadding (its ! i);
             wedgeEndPadding = wedgePadding (its ! j);
             lastWedge = (Suc i = n \<or> (Suc (Suc i) = n \<and> drag = Some (Suc i)))
         in case (angs ! i, angs ! j) of
              (Some wedgeStart, Some wedgeEnd0) \<Rightarrow>
                (let wedgeEnd = (if wedgeEnd0 < wedgeStart then wedgeEnd0 + 360 else wedgeEnd0);
                     diff = wedgeEnd - wedgeStart
                 in if lastWedge
                       \<and> ((mouseAngle \<ge> wedgeStart + diff * 0.5
                            \<and> mouseAngle < wedgeEnd - diff * wedgeEndPadding)
                          \<or> (mouseAngle + 360 \<ge> wedgeStart + diff * 0.5
                              \<and> mouseAngle + 360 < wedgeEnd - diff * wedgeEndPadding))
                    then Inr (Some 0)
                    else if (mouseAngle \<ge> wedgeStart + diff * wedgeStartPadding
                             \<and> mouseAngle < wedgeEnd - diff * wedgeEndPadding)
                            \<or> (mouseAngle + 360 \<ge> wedgeStart + diff * wedgeStartPadding
                                \<and> mouseAngle + 360 < wedgeEnd - diff * wedgeEndPadding)
                    then Inr (Some (Suc i))
                    else wedgeLoop mouseAngle angs its drag rest)
            | _ \<Rightarrow> wedgeLoop mouseAngle angs its drag rest))"

text \<open>
  The drop index for a pointer at the angle \<open>mouseAngle\<close>, outside the center item, from
  the angles of the items: the special cases for few items, then the wedges.
\<close>

definition resolveDropIndex ::
  "real \<Rightarrow> real option list \<Rightarrow> item list \<Rightarrow> nat option \<Rightarrow> js_error + nat option"
where
  "resolveDropIndex mouseAngle itemAngles its drag =
     (if length itemAngles = 0 then Inr (Some 0)
      else if length itemAngles = 1 then
        (if drag \<noteq> None then Inr (Some 0)
         else Inr (Some (if beforeItem mouseAngle (itemAngles ! 0) then 0 else 1)))
      else if length itemAngles = 2 \<and> drag \<noteq> None then
        Inr (Some (if beforeItem mouseAngle (itemAngles ! 0) then 0 else 2))
      else wedgeLoop mouseAngle itemAngles its drag [0..<length itemAngles])"

definition motionEdit :: "solver \<Rightarrow> real \<Rightarrow> real \<Rightarrow> editor \<Rightarrow> js_error + editor" where
  "motionEdit solve px py s =
     (let x = px - real_of_int (width s) / 2;
          y = py - real_of_int (height s) / 2;
          s1 = s\<lparr>dropIndex := None\<rparr>;
          distance = sqrt (x * x + y * y)
      in if distance > real_of_int (ItemSize CENTER) / 2 then
           (case resolveDropIndex (pointerAngle x y) (computeItemAngles solve s1)
                   (items s1) (dragIndex s1) of
              Inl e \<Rightarrow> Inl e
            | Inr d \<Rightarrow> Inr (s1\<lparr>dropIndex := d\<rparr>))
         else Inr s1)"

text \<open>
  The whole handler: the new state, with \<open>_restartAnimation\<close> set when the drop position
  changed, and whether the drop is possible at the pointer.
\<close>

definition dropTarget_motion ::
  "solver \<Rightarrow> real \<Rightarrow> real \<Rightarrow> editor \<Rightarrow> js_error + (bool \<times> editor)"
where
  "dropTarget_motion solve px py s =
     (case (if inMenuOverviewMode s then Inr (motionOverview px py s)
            else motionEdit solve px py s) of
        Inl e \<Rightarrow> Inl e
      | Inr s1 \<Rightarrow>
          (let s2 = (if dropColumn s1 \<noteq> dropColumn s \<or> dropRow s1 \<noteq> dropRow s
                        \<or> dropIndex s1 \<noteq> dropIndex s
                     then s1\<lparr>restartAnimation := True\<rparr> else s1)
           in Inr (dropIndex s2 \<noteq> None, s2)))"

section \<open>\<open>setItems\<close>: replacing the displayed items\<close>

text \<open>
  Two configurations are taken for the same menu when name and icon agree
  (\<open>item.name == centerConfig.name && item.icon == centerConfig.icon\<close>).
\<close>

definition sameMenu :: "config \<Rightarrow> config \<Rightarrow> bool" where
  "sameMenu a b = (name a = name b \<and> icon a = icon b)"

text \<open>
  \<open>_createItem(config, itemState)\<close>: a new item, revealed and sensitive, without a
  position.
\<close>

definition createItem :: "config \<Rightarrow> ItemState \<Rightarrow> item" where
  "createItem c st =
     \<lparr>getConfig = c, state = st, reveal_child = True, sensitive = True, xy = None\<rparr>"

definition hideItem :: "item \<Rightarrow> item" where
  "hideItem it = it\<lparr>reveal_child := False, sensitive := False\<rparr>"

text \<open>
  The first part of \<open>setItems\<close>: the kind of the upcoming transition and the transition
  angle. \<open>(this._parentAngle + 180) % 360\<close> is \<open>NaN\<close> when there is no parent angle.
\<close>

definition wentOneLevelDeeper :: "config option \<Rightarrow> editor \<Rightarrow> bool" where
  "wentOneLevelDeeper centerConfig s =
     (case centerConfig of
        None \<Rightarrow> False
      | Some cc \<Rightarrow> list_ex (\<lambda>it. sameMenu (getConfig it) cc) (items s))"

definition wentOneLevelUp :: "config list \<Rightarrow> editor \<Rightarrow> bool" where
  "wentOneLevelUp configs s =
     (case centerItem s of
        None \<Rightarrow> False
      | Some c \<Rightarrow> list_ex (\<lambda>cfg. sameMenu cfg (getConfig c)) configs)"

definition classifyTransition ::
  "config list \<Rightarrow> config option \<Rightarrow> real option \<Rightarrow> editor \<Rightarrow> TransitionType \<times> real option"
where
  "classifyTransition configs centerConfig newParentAngle s =
     (if centerItem s = None \<and> newParentAngle = None \<and> centerConfig \<noteq> None
        then (TRANSITION_A, transitionAngle s)
      else if centerItem s \<noteq> None \<and> parentAngle s = None \<and> centerConfig = None
        then (TRANSITION_B, transitionAngle s)
      else if wentOneLevelDeeper centerConfig s
        then (TRANSITION_C, newParentAngle)
      else if wentOneLevelUp configs s
        then (TRANSITION_D, map_option (\<lambda>p. js_rem (p + 180) 360) (parentAngle s))
      else (TRANSITION_E, transitionAngle s))"

text \<open>
  The second part: with a frame clock, the old items are dropped (and unparented) if
  \<open>this._lastHideTime + TRANSITION_DURATION < now\<close>, and \<open>_lastHideTime\<close> becomes \<open>now\<close>, the
  frame time as the clock gives it. Without a frame clock nothing is dropped.
\<close>

definition clearOldItems :: "int option \<Rightarrow> editor \<Rightarrow> item list \<times> int" where
  "clearOldItems frameTime s =
     (case frameTime of
        None \<Rightarrow> (oldItems s, lastHideTime s)
      | Some now \<Rightarrow>
          (if lastHideTime s + TRANSITION_DURATION < now then [] else oldItems s, now))"

text \<open>
  \<open>setItems(configs, selectedIndex, centerConfig, parentAngle)\<close>; \<open>frameTime\<close> is what
  \<open>this.get_frame_clock().get_frame_time()\<close> returns, \<open>None\<close> when there is no frame clock.
\<close>

definition setItems ::
  "int option \<Rightarrow> config list \<Rightarrow> int option \<Rightarrow> config option \<Rightarrow> real option \<Rightarrow> editor \<Rightarrow> editor"
where
  "setItems frameTime configs selectedIndex centerConfig newParentAngle s =
     (let (transition, tAngle) = classifyTransition configs centerConfig newParentAngle s;
          (kept, hideTime) = clearOldItems frameTime s;
          old = kept @ items s @ (case centerItem s of None \<Rightarrow> [] | Some c \<Rightarrow> [c]);
          newItems = map (\<lambda>c. createItem c (if centerConfig \<noteq> None then CHILD else GRID)) configs;
          selected =
            (case selectedIndex of
               None \<Rightarrow> None
             | Some k \<Rightarrow>
                 if 0 \<le> k \<and> k < int (length configs) then Some (SelectedItem (nat k))
                 else if centerConfig \<noteq> None \<and> k = - 1 then Some SelectedCenter
                 else None)
      in s\<lparr>items := newItems,
           centerItem := map_option (\<lambda>c. createItem c CENTER) centerConfig,
           selectedItem := selected,
           oldItems := map hideItem old,
           lastHideTime := hideTime,
           upcomingTransition := transition,
           transitionAngle := tAngle,
           parentAngle := newParentAngle,
           restartAnimation := True\<rparr>)"

section \<open>\<open>vfunc_size_allocate\<close>: the positions of the items\<close>

text \<open>
  The time of a layout pass is the frame time divided by 1000
  (\<open>const time = this.get_frame_clock().get_frame_time() / 1000\<close>), and an animation
  restarted in that pass ends at \<open>time + TRANSITION_DURATION\<close> (\<open>setAnimation\<close>).
\<close>

definition layoutTime :: "int \<Rightarrow> real" where
  "layoutTime frameTime = real_of_int frameTime / 1000"

definition animationEndTime :: "int \<Rightarrow> real" where
  "animationEndTime frameTime = layoutTime frameTime + real_of_int TRANSITION_DURATION"

text \<open>
  The overview branch. \<open>_columnCount\<close> is \<open>Math.floor(width / ItemSize[GRID])\<close> and
  \<open>_rowCount\<close> is \<open>Math.ceil(items.length / _columnCount)\<close>; a single row is made as wide
  as the items it holds. With a width below one item the source divides by zero and no
  coordinate is finite: the model gives \<open>None\<close> there.
\<close>

definition gridShape :: "int \<Rightarrow> nat \<Rightarrow> (int \<times> int) option" where
  "gridShape w n =
     (let columns = w div ItemSize GRID in
      if columns \<le> 0 then None
      else (let rows = \<lceil>real n / real_of_int columns\<rceil>
            in Some (if rows = 1 then int n else columns, rows)))"

text \<open>
  The horizontal offset that makes space for the dropped item, for the item at \<open>row\<close> and
  \<open>column\<close>. A \<open>null\<close> drop column counts as 0 in the comparisons.
\<close>

definition dropShift :: "editor \<Rightarrow> int \<Rightarrow> int \<Rightarrow> int" where
  "dropShift s row column =
     (if dropRow s = Some row then
        (let dc = (case dropColumn s of None \<Rightarrow> 0 | Some c \<Rightarrow> c) in
         if column < dc then - max 0 (3 - (dc - column) + 1) * 15
         else max 0 (3 - (column - dc)) * 15)
      else 0)"

definition gridOffset :: "int \<Rightarrow> int \<Rightarrow> real" where
  "gridOffset extent cells = real_of_int (extent - cells * ItemSize GRID) / 2"

definition gridCell :: "int \<Rightarrow> nat \<Rightarrow> int \<times> int" where
  "gridCell columns i = (int i mod columns, int i div columns)"

definition gridTarget :: "int \<Rightarrow> int \<Rightarrow> int \<Rightarrow> int \<Rightarrow> editor \<Rightarrow> nat \<Rightarrow> real \<times> real" where
  "gridTarget w h columns rows s i =
     (let (column, row) = gridCell columns i in
      (gridOffset w columns + real_of_int (column * ItemSize GRID + dropShift s row column),
       gridOffset h rows + real_of_int (row * ItemSize GRID)))"

text \<open>
  The state after the overview branch (the fields it stores) and the position given to
  each item.
\<close>

definition allocateOverview :: "int \<Rightarrow> int \<Rightarrow> editor \<Rightarrow> (editor \<times> (real \<times> real) list) option" where
  "allocateOverview w h s =
     (case gridShape w (length (items s)) of
        None \<Rightarrow> None
      | Some (columns, rows) \<Rightarrow>
          Some (s\<lparr>width := w, height := h, columnCount := columns, rowCount := rows,
                  gridOffsetX := gridOffset w columns, gridOffsetY := gridOffset h rows\<rparr>,
                map (gridTarget w h columns rows s) [0..<length (items s)]))"

text \<open>
  The position that centers a widget of the given state on the center of the widget:
  \<open>centerX - ItemSize[state] / 2\<close> with \<open>centerX = Math.floor(width / 2)\<close>.
\<close>

definition centeredAt :: "int \<Rightarrow> int \<Rightarrow> ItemState \<Rightarrow> real \<times> real" where
  "centeredAt w h st =
     (real_of_int (w div 2) - real_of_int (ItemSize st) / 2,
      real_of_int (h div 2) - real_of_int (ItemSize st) / 2)"

text \<open>
  What a layout pass takes from outside the sources. \<open>new AnimatedValue(...)\<close> and
  \<open>AnimatedValue.get(time)\<close> belong to the missing class. The offsets on the circle,
  \<open>Math.floor(Math.sin(angle * Math.PI / 180) * radius)\<close> and the same with \<open>Math.cos\<close>, for
  \<open>radius = ItemSize[GRID] * 1.4\<close>, are computed in floating point, where they differ by
  one from the floor of the exact product at some angles; the pass takes these two
  functions of a finite angle in degrees as they are.
\<close>

record platform =
  newAnimatedValue :: animated
  animatedGet :: "animated \<Rightarrow> real \<Rightarrow> real option"
  floorSinRadius :: "real \<Rightarrow> int"
  floorCosRadius :: "real \<Rightarrow> int"

text \<open>
  Sums and differences of coordinates: not finite as soon as one operand is not.
\<close>

definition numAdd :: "real option \<Rightarrow> real option \<Rightarrow> real option" where
  "numAdd a b = (case (a, b) of (Some u, Some v) \<Rightarrow> Some (u + v) | _ \<Rightarrow> None)"

definition numSub :: "real option \<Rightarrow> real option \<Rightarrow> real option" where
  "numSub a b = (case (a, b) of (Some u, Some v) \<Rightarrow> Some (u - v) | _ \<Rightarrow> None)"

definition finitePosition :: "real \<times> real \<Rightarrow> real option \<times> real option" where
  "finitePosition p = (Some (fst p), Some (snd p))"

text \<open>
  The edit branch: the item at an angle is centered on the point at that angle on the
  circle around the center of the widget. An \<open>undefined\<close> angle gives \<open>NaN\<close> coordinates.
\<close>

definition polarTarget ::
  "platform \<Rightarrow> int \<Rightarrow> int \<Rightarrow> ItemState \<Rightarrow> real option \<Rightarrow> real option \<times> real option"
where
  "polarTarget pf w h st a =
     (case a of
        None \<Rightarrow> (None, None)
      | Some d \<Rightarrow>
          (Some (real_of_int (floorSinRadius pf d) + fst (centeredAt w h st)),
           Some (- real_of_int (floorCosRadius pf d) + snd (centeredAt w h st))))"

text \<open>\<open>angles[i]\<close>: \<open>undefined\<close> beyond the end of the array.\<close>

definition readAngle :: "real option list \<Rightarrow> nat \<Rightarrow> real option" where
  "readAngle angles i = (if i < length angles then angles ! i else None)"

definition editTargets ::
  "platform \<Rightarrow> solver \<Rightarrow> int \<Rightarrow> int \<Rightarrow> editor \<Rightarrow> (real option \<times> real option) list"
where
  "editTargets pf solve w h s =
     (let angles = computeItemAngles solve s in
      map (\<lambda>(i, it). polarTarget pf w h (state it) (readAngle angles i))
          (enumerate 0 (items s)))"

text \<open>The back button has the state \<open>CHILD\<close>; without a parent angle it sits at the center.\<close>

definition backButtonTarget ::
  "platform \<Rightarrow> int \<Rightarrow> int \<Rightarrow> editor \<Rightarrow> real option \<times> real option"
where
  "backButtonTarget pf w h s =
     (case parentAngle s of
        Some p \<Rightarrow> polarTarget pf w h CHILD (Some p)
      | None \<Rightarrow> finitePosition (centeredAt w h CHILD))"

text \<open>
  The helper \<open>setAnimation(item, time, x, y)\<close> of the layout pass, on the position of a
  widget. A widget without a position gets new values that start at the target. With
  \<open>_restartAnimation\<close> set, a widget that has a position starts at its current one, and
  the animation runs from \<open>time\<close> for \<open>TRANSITION_DURATION\<close>. The target becomes the end.
\<close>

definition setAnimation ::
  "platform \<Rightarrow> bool \<Rightarrow> real \<Rightarrow> real option \<times> real option \<Rightarrow> (animated \<times> animated) option
   \<Rightarrow> animated \<times> animated"
where
  "setAnimation pf restart time target old =
     (let (ax, ay) =
            (case old of
               None \<Rightarrow>
                 ((newAnimatedValue pf)\<lparr>startValue := fst target\<rparr>,
                  (newAnimatedValue pf)\<lparr>startValue := snd target\<rparr>)
             | Some (ox, oy) \<Rightarrow>
                 if restart
                 then (ox\<lparr>startValue := animatedGet pf ox time\<rparr>,
                       oy\<lparr>startValue := animatedGet pf oy time\<rparr>)
                 else (ox, oy));
          ex = ax\<lparr>endValue := fst target\<rparr>;
          ey = ay\<lparr>endValue := snd target\<rparr>
      in if restart
         then (ex\<lparr>startTime := time, endTime := time + real_of_int TRANSITION_DURATION\<rparr>,
               ey\<lparr>startTime := time, endTime := time + real_of_int TRANSITION_DURATION\<rparr>)
         else (ex, ey))"

definition animateItem ::
  "platform \<Rightarrow> bool \<Rightarrow> real \<Rightarrow> real option \<times> real option \<Rightarrow> item \<Rightarrow> item"
where
  "animateItem pf restart time target it =
     it\<lparr>xy := Some (setAnimation pf restart time target (xy it))\<rparr>"

text \<open>
  The first part of the pass stores the size and positions the items: on the grid in
  overview mode, on the circle, with the center item in the middle, in edit mode. In
  overview mode with a width below one grid item there is no finite layout (\<open>None\<close>).
\<close>

definition placeItems ::
  "platform \<Rightarrow> solver \<Rightarrow> int \<Rightarrow> int \<Rightarrow> real \<Rightarrow> editor \<Rightarrow> editor option"
where
  "placeItems pf solve w h time s =
     (case centerItem s of
        None \<Rightarrow>
          (case allocateOverview w h s of
             None \<Rightarrow> None
           | Some (s', ts) \<Rightarrow>
               Some (s'\<lparr>items :=
                          map (\<lambda>(t, it). animateItem pf (restartAnimation s) time
                                           (finitePosition t) it)
                              (zip ts (items s))\<rparr>))
      | Some c \<Rightarrow>
          Some (s\<lparr>width := w, height := h,
                  items :=
                    map (\<lambda>(t, it). animateItem pf (restartAnimation s) time t it)
                        (zip (editTargets pf solve w h s) (items s)),
                  centerItem :=
                    Some (animateItem pf (restartAnimation s) time
                            (finitePosition (centeredAt w h (state c))) c)\<rparr>))"

definition placeBackButton :: "platform \<Rightarrow> int \<Rightarrow> int \<Rightarrow> real \<Rightarrow> editor \<Rightarrow> editor" where
  "placeBackButton pf w h time s =
     s\<lparr>backButton :=
         Some (setAnimation pf (restartAnimation s) time (backButtonTarget pf w h s)
                 (backButton s))\<rparr>"

text \<open>
  The second part of the pass, the \<open>switch\<close> on \<open>_upcomingTransition\<close>. The loops of
  \<open>TRANSITION_A\<close> and \<open>TRANSITION_B\<close> animate the first old item that has the name and the
  icon of a given configuration, and stop there.
\<close>

fun animateFirstMatch :: "(item \<Rightarrow> item) \<Rightarrow> config \<Rightarrow> item list \<Rightarrow> item list" where
  "animateFirstMatch f c [] = []"
| "animateFirstMatch f c (it # its) =
     (if sameMenu (getConfig it) c then f it # its else it # animateFirstMatch f c its)"

text \<open>The item \<open>_selectedItem\<close> refers to, \<open>null\<close> when it refers to none.\<close>

definition selectedWidget :: "editor \<Rightarrow> item option" where
  "selectedWidget s =
     (case selectedItem s of
        None \<Rightarrow> None
      | Some (SelectedItem i) \<Rightarrow> if i < length (items s) then Some (items s ! i) else None
      | Some SelectedCenter \<Rightarrow> centerItem s)"

definition hasXY :: "item \<Rightarrow> bool" where
  "hasXY it = (xy it \<noteq> None)"

text \<open>
  \<open>TRANSITION_C\<close> and \<open>TRANSITION_D\<close>: every old item moves from its end position by the
  offset of the transition angle, and the start of every new item and of the center
  item is moved back by it.
\<close>

definition slideOut :: "platform \<Rightarrow> bool \<Rightarrow> real \<Rightarrow> real option \<Rightarrow> real option \<Rightarrow> item \<Rightarrow> item" where
  "slideOut pf restart time offsetX offsetY it =
     (case xy it of
        None \<Rightarrow> it
      | Some (ax, ay) \<Rightarrow>
          animateItem pf restart time
            (numAdd (endValue ax) offsetX, numAdd (endValue ay) offsetY) it)"

definition slideIn :: "real option \<Rightarrow> real option \<Rightarrow> item \<Rightarrow> item" where
  "slideIn offsetX offsetY it =
     it\<lparr>xy := map_option
                 (\<lambda>(ax, ay). (ax\<lparr>startValue := numSub (startValue ax) offsetX\<rparr>,
                              ay\<lparr>startValue := numSub (startValue ay) offsetY\<rparr>))
                 (xy it)\<rparr>"

text \<open>
  The exceptions of the \<open>switch\<close> are all of one kind, a property read from \<open>null\<close> or
  \<open>undefined\<close>: the configuration of a missing center item or selected item inside the
  loops of \<open>TRANSITION_A\<close> and \<open>TRANSITION_B\<close>, which run if there are old items;
  \<open>this._selectedItem.x.end\<close> of a selected item without a position; \<open>item.x.end\<close> of an old
  item without a position, \<open>item.x.start\<close> of a new one, and \<open>this._centerItem.x\<close> of a
  missing center item in \<open>TRANSITION_C\<close> and \<open>TRANSITION_D\<close>.
\<close>

definition applyTransition ::
  "platform \<Rightarrow> int \<Rightarrow> int \<Rightarrow> real \<Rightarrow> editor \<Rightarrow> js_error + editor"
where
  "applyTransition pf w h time s =
     (case upcomingTransition s of
        TRANSITION_A \<Rightarrow>
          if oldItems s = [] then Inr s
          else
            (case centerItem s of
               None \<Rightarrow> Inl TypeError
             | Some c \<Rightarrow>
                 Inr (s\<lparr>oldItems :=
                          animateFirstMatch
                            (\<lambda>it. animateItem pf (restartAnimation s) time
                                    (finitePosition (centeredAt w h (state it))) it)
                            (getConfig c) (oldItems s)\<rparr>))
      | TRANSITION_B \<Rightarrow>
          if oldItems s = [] then Inr s
          else
            (case selectedWidget s of
               None \<Rightarrow> Inl TypeError
             | Some sel \<Rightarrow>
                 if list_ex (\<lambda>it. sameMenu (getConfig it) (getConfig sel)) (oldItems s) then
                   (case xy sel of
                      None \<Rightarrow> Inl TypeError
                    | Some (ax, ay) \<Rightarrow>
                        Inr (s\<lparr>oldItems :=
                                 animateFirstMatch
                                   (animateItem pf (restartAnimation s) time
                                      (endValue ax, endValue ay))
                                   (getConfig sel) (oldItems s)\<rparr>))
                 else Inr s)
      | TRANSITION_C \<Rightarrow>
          (let offsetX = map_option (\<lambda>a. real_of_int (floorSinRadius pf a)) (transitionAngle s);
               offsetY = map_option (\<lambda>a. - real_of_int (floorCosRadius pf a)) (transitionAngle s)
           in if list_all hasXY (oldItems s) \<and> list_all hasXY (items s)
                 \<and> (case centerItem s of None \<Rightarrow> False | Some c \<Rightarrow> hasXY c)
              then Inr (s\<lparr>oldItems :=
                            map (slideOut pf (restartAnimation s) time offsetX offsetY)
                                (oldItems s),
                          items := map (slideIn offsetX offsetY) (items s),
                          centerItem := map_option (slideIn offsetX offsetY) (centerItem s)\<rparr>)
              else Inl TypeError)
      | TRANSITION_D \<Rightarrow>
          (let offsetX = map_option (\<lambda>a. real_of_int (floorSinRadius pf a)) (transitionAngle s);
               offsetY = map_option (\<lambda>a. - real_of_int (floorCosRadius pf a)) (transitionAngle s)
           in if list_all hasXY (oldItems s) \<and> list_all hasXY (items s)
                 \<and> (case centerItem s of None \<Rightarrow> False | Some c \<Rightarrow> hasXY c)
              then Inr (s\<lparr>oldItems :=
                            map (slideOut pf (restartAnimation s) time offsetX offsetY)
                                (oldItems s),
                          items := map (slideIn offsetX offsetY) (items s),
                          centerItem := map_option (slideIn offsetX offsetY) (centerItem s)\<rparr>)
              else Inl TypeError)
      | TRANSITION_E \<Rightarrow> Inr s
      | NONE \<Rightarrow> Inr s)"

text \<open>
  \<open>vfunc_size_allocate(width, height, baseline)\<close> at the frame time the clock gives. The
  pass throws (\<open>Throws\<close>), has no finite layout (\<open>NotFinite\<close>), or completes with a new
  state (\<open>Laid\<close>). A completed pass has reset \<open>_upcomingTransition\<close> and
  \<open>_restartAnimation\<close>; it ends with the tick callback and \<open>_updateItemPositions\<close>, which
  hand the positions to the toolkit and assign none of the fields of the model. A pass
  that throws keeps what it has assigned by then and resets nothing; the model gives the
  exception only.
\<close>

datatype layoutResult = Throws js_error | NotFinite | Laid editor

definition vfunc_size_allocate ::
  "platform \<Rightarrow> solver \<Rightarrow> int \<Rightarrow> int \<Rightarrow> int \<Rightarrow> editor \<Rightarrow> layoutResult"
where
  "vfunc_size_allocate pf solve w h frameTime s =
     (case placeItems pf solve w h (layoutTime frameTime) s of
        None \<Rightarrow> NotFinite
      | Some s1 \<Rightarrow>
          (case applyTransition pf w h (layoutTime frameTime)
                  (placeBackButton pf w h (layoutTime frameTime) s1) of
             Inl e \<Rightarrow> Throws e
           | Inr s2 \<Rightarrow> Laid (s2\<lparr>upcomingTransition := NONE, restartAnimation := False\<rparr>)))"

text \<open>
  The end positions (\<open>x.end\<close>, \<open>y.end\<close>) of the displayed widgets: the items, the center
  item, the back button. A widget without a position has none.
\<close>

definition endPosition :: "(animated \<times> animated) option \<Rightarrow> (real option \<times> real option) option" where
  "endPosition a = map_option (\<lambda>(ax, ay). (endValue ax, endValue ay)) a"

definition endPositions ::
  "editor \<Rightarrow> (real option \<times> real option) option list
            \<times> (real option \<times> real option) option option
            \<times> (real option \<times> real option) option"
where
  "endPositions s =
     (map (\<lambda>it. endPosition (xy it)) (items s),
      map_option (\<lambda>c. endPosition (xy c)) (centerItem s),
      endPosition (backButton s))"

text \<open>
  Every widget of the editor has been through a layout pass: the items, the old items
  and the center item have a position.
\<close>

definition laidOut :: "editor \<Rightarrow> bool" where
  "laidOut s =
     (list_all hasXY (items s) \<and> list_all hasXY (oldItems s)
      \<and> (case centerItem s of None \<Rightarrow> True | Some c \<Rightarrow> hasXY c))"

text \<open>
  The end positions the first part of a pass gives to the items: the grid positions in
  overview mode, the positions on the circle in edit mode; none in overview mode with a
  width below one grid item.
\<close>

definition itemTargets ::
  "platform \<Rightarrow> solver \<Rightarrow> int \<Rightarrow> int \<Rightarrow> editor \<Rightarrow> (real option \<times> real option) list option"
where
  "itemTargets pf solve w h s =
     (case centerItem s of
        None \<Rightarrow> map_option (\<lambda>r. map finitePosition (snd r)) (allocateOverview w h s)
      | Some c \<Rightarrow> Some (editTargets pf solve w h s))"

section \<open>States and events used in the examples\<close>

text \<open>
  The fields as the constructor \<open>_init\<close> sets them; the six fields it leaves to the first
  layout pass are 0.
\<close>

definition initialEditor :: editor where
  "initialEditor =
     \<lparr>items = [], centerItem = None, backButton = None, selectedItem = None, oldItems = [],
      lastHideTime = 0,
      restartAnimation = False, upcomingTransition = NONE, transitionAngle = Some 0,
      parentAngle = None, dragIndex = None, dropIndex = None, dropRow = None,
      dropColumn = None, lastDropIndex = None, columnCount = 0, rowCount = 0,
      gridOffsetX = 0, gridOffsetY = 0, width = 0, height = 0\<rparr>"

text \<open>A configuration without a fixed angle.\<close>

definition plainConfig :: "string \<Rightarrow> config" where
  "plainConfig n = \<lparr>name = n, icon = ''icon'', itemType = ''Command'', angle = None\<rparr>"

text \<open>The editor showing the top-level menu \<open>m\<close> with the two children \<open>a\<close> and \<open>b\<close>.\<close>

definition twoItemMenu :: editor where
  "twoItemMenu =
     setItems None [plainConfig ''a'', plainConfig ''b''] None (Some (plainConfig ''m'')) None
       initialEditor"

text \<open>An external drop of a list of two URIs, with an empty line between them.\<close>

definition uriDrop :: dropEvent where
  "uriDrop =
     \<lparr>what = [CHR ''a'', CHR 0x0D, CHR 0x0A, CHR 0x0A, CHR ''b''],
      internalDrag = False, hasUriList = True\<rparr>"

text \<open>
  An internal drop of the string \<open>hello\<close>, which is not JSON, and a parser that rejects
  this string and takes every other one for the configuration of a menu.
\<close>

definition helloDrop :: dropEvent where
  "helloDrop = \<lparr>what = ''hello'', internalDrag = True, hasUriList = False\<rparr>"

definition menuParser :: "string \<Rightarrow> parsedItem" where
  "menuParser w = (if w = ''hello'' then InvalidJSON else KnownType True)"

text \<open>The overview with two menus, and with five.\<close>

definition twoMenuOverview :: editor where
  "twoMenuOverview =
     setItems None [plainConfig ''a'', plainConfig ''b''] None None None initialEditor"

definition fiveMenuOverview :: editor where
  "fiveMenuOverview =
     setItems None (map plainConfig [''a'', ''b'', ''c'', ''d'', ''e'']) None None None
       initialEditor"

text \<open>
  The overview with five menus after a layout pass at width 540 and height 300: four
  columns, two rows, the grid ten pixels from the left and twenty from the top.
\<close>

definition fiveMenuGrid :: editor where
  "fiveMenuGrid =
     fiveMenuOverview\<lparr>width := 540, height := 300, columnCount := 4, rowCount := 2,
                      gridOffsetX := 10, gridOffsetY := 20\<rparr>"

text \<open>
  The circular distance of two angles of \<open>[0, 360)\<close>, in the words of the claim about
  the single item: the smaller of the two arcs between them.
\<close>

definition circularDistance :: "real \<Rightarrow> real \<Rightarrow> real" where
  "circularDistance a b = min \<bar>a - b\<bar> (360 - \<bar>a - b\<bar>)"

text \<open>
  The top-level menu with two children while the second child is dragged and the drop
  index is behind it.
\<close>

definition lastDraggedPastEnd :: editor where
  "lastDraggedPastEnd = twoItemMenu\<lparr>dragIndex := Some 1, dropIndex := Some 2\<rparr>"

text \<open>A top-level menu whose only child has the name and the icon of the menu itself.\<close>

definition sameNameMenu :: editor where
  "sameNameMenu =
     setItems None [plainConfig ''m''] None (Some (plainConfig ''m'')) None initialEditor"

text \<open>
  Opening, at the given frame time, the submenu \<open>parent\<close> with the single child \<open>child\<close>
  and the back button at 90 degrees.
\<close>

definition submenuAt :: "int \<Rightarrow> string \<Rightarrow> string \<Rightarrow> editor \<Rightarrow> editor" where
  "submenuAt frameTime parent child s =
     setItems (Some frameTime) [plainConfig child] None (Some (plainConfig parent)) (Some 90) s"

text \<open>A top-level menu with six children.\<close>

definition sixItemMenu :: editor where
  "sixItemMenu =
     setItems None (map plainConfig [''a'', ''b'', ''c'', ''d'', ''e'', ''f'']) None
       (Some (plainConfig ''m'')) None initialEditor"

text \<open>Four children without fixed angles, none of them a custom menu.\<close>

definition fourItems :: "item list" where
  "fourItems = map (\<lambda>n. createItem (plainConfig n) CHILD) [''a'', ''b'', ''c'', ''d'']"

text \<open>
  A platform for the examples: a new animated value has no value and no duration, an
  animated value is read at its end, and the offsets on the circle are the floors of
  the exact products, with \<open>radius = 182\<close>.
\<close>

definition exactPlatform :: platform where
  "exactPlatform =
     \<lparr>newAnimatedValue = \<lparr>startValue = None, endValue = None, startTime = 0, endTime = 0\<rparr>,
      animatedGet = (\<lambda>a t. endValue a),
      floorSinRadius = (\<lambda>d. \<lfloor>sin (d * pi / 180) * 182\<rfloor>),
      floorCosRadius = (\<lambda>d. \<lfloor>cos (d * pi / 180) * 182\<rfloor>)\<rparr>"

text \<open>
  The two animated values of a widget that a pass at \<open>time\<close> has placed at \<open>(px, py)\<close>
  for the first time, with \<open>_restartAnimation\<close> set.
\<close>

definition animatedAt :: "real \<Rightarrow> real \<Rightarrow> real \<Rightarrow> animated \<times> animated" where
  "animatedAt px py time =
     (\<lparr>startValue = Some px, endValue = Some px, startTime = time, endTime = time + 350\<rparr>,
      \<lparr>startValue = Some py, endValue = Some py, startTime = time, endTime = time + 350\<rparr>)"

text \<open>
  The menu \<open>sameNameMenu\<close> after a layout pass at width 540 and height 300 and frame time
  0: the child above the center, at 0 degrees, and the back button in the middle.
\<close>

definition sameNameMenuLaid :: editor where
  "sameNameMenuLaid =
     sameNameMenu
       \<lparr>items := [(createItem (plainConfig ''m'') CHILD)\<lparr>xy := Some (animatedAt 220 (- 82) 0)\<rparr>],
        centerItem := Some ((createItem (plainConfig ''m'') CENTER)\<lparr>xy := Some (animatedAt 210 90 0)\<rparr>),
        backButton := Some (animatedAt 220 100 0),
        restartAnimation := False, upcomingTransition := NONE,
        width := 540, height := 300\<rparr>"

text \<open>
  The overview with two menus after a layout pass at width 540 and height 300 and frame
  time 0: one row of two columns, 140 pixels from the left and 85 from the top.
\<close>

definition twoMenuGrid :: editor where
  "twoMenuGrid =
     twoMenuOverview
       \<lparr>items := [(createItem (plainConfig ''a'') GRID)\<lparr>xy := Some (animatedAt 140 85 0)\<rparr>,
                  (createItem (plainConfig ''b'') GRID)\<lparr>xy := Some (animatedAt 270 85 0)\<rparr>],
        backButton := Some (animatedAt 220 100 0),
        restartAnimation := False, upcomingTransition := NONE,
        columnCount := 2, rowCount := 1, gridOffsetX := 140, gridOffsetY := 85,
        width := 540, height := 300\<rparr>"

section \<open>The angle solver without fixed angles\<close>

lemma fixedEntries_free: "fixedEntries (replicate n None) = []"
  by (auto simp: fixedEntries_def in_set_enumerate_eq)

lemma solver_free:
  "utils_computeItemAngles (replicate n None) None = map (\<lambda>i. real i * (360 / real n)) [0..<n]"
  by (simp add: utils_computeItemAngles_def fixedEntries_free Let_def)

text \<open>
  Two more values of the modelled solver: one fixed item with three free ones around the
  circle, and fixed items only.
\<close>

lemma solver_one_fixed:
  "utils_computeItemAngles [None, Some 90, None, None] None = [0, 90, 180, 270]"
  by (simp add: utils_computeItemAngles_def fixedEntries_def freeAngle_def wedgeBegin_def
      wedgeEnd_def js_rem_def Let_def upt_conv_Cons)

lemma solver_all_fixed:
  "utils_computeItemAngles [Some 10, Some 100, Some 200] (Some 300) = [10, 100, 200]"
  by (simp add: utils_computeItemAngles_def fixedEntries_def Let_def upt_conv_Cons)

text \<open>
  Claim C3. For zero items the angle solver returns the empty result. For \<open>N \<ge> 1\<close> items
  without a fixed angle and no parent angle it returns \<open>N\<close> angles, in the order of the
  items: each angle is \<open>360 / N\<close> degrees after the one before it, the first one is
  \<open>360 / N\<close> degrees after the last one around the circle, and all lie in \<open>[0, 360)\<close>.
\<close>

theorem angle_solver_even_spacing:
  "utils_computeItemAngles [] None = []
   \<and> (1 \<le> N \<longrightarrow>
        (let r = utils_computeItemAngles (replicate N None) None in
         length r = N
         \<and> (\<forall>i. Suc i < N \<longrightarrow> r ! Suc i - r ! i = 360 / real N)
         \<and> r ! 0 + 360 - r ! (N - 1) = 360 / real N
         \<and> (\<forall>i < N. 0 \<le> r ! i \<and> r ! i < 360)))"
proof -
  have empty: "utils_computeItemAngles [] None = []"
    by (simp add: utils_computeItemAngles_def)
  have spaced:
    "Suc i < N \<Longrightarrow> real (Suc i) * (360 / real N) - real i * (360 / real N) = 360 / real N"
    for i
    by (simp add: algebra_simps add_divide_distrib)
  have wrap: "1 \<le> N \<Longrightarrow> 360 - real (N - 1) * (360 / real N) = 360 / real N"
    by (simp add: of_nat_diff field_simps)
  have range: "i < N \<Longrightarrow> 0 \<le> real i * (360 / real N) \<and> real i * (360 / real N) < 360" for i
    by (simp add: field_simps)
  show ?thesis
    using empty spaced wrap range by (simp add: solver_free Let_def)
qed

theorem angle_solver_even_spacing_witness:
  "(1::nat) \<le> 4
   \<and> utils_computeItemAngles (replicate 4 None) None = [0, 90, 180, 270]
   \<and> utils_computeItemAngles (replicate 4 None) None ! Suc 2
       - utils_computeItemAngles (replicate 4 None) None ! 2 = 360 / real 4"
proof -
  have one: "(1::nat) \<le> 4" by simp
  have vals: "utils_computeItemAngles (replicate 4 None) None = [0, 90, 180, 270]"
    by (simp add: solver_free upt_conv_Cons)
  have "\<forall>i. Suc i < 4 \<longrightarrow>
          utils_computeItemAngles (replicate 4 None) None ! Suc i
          - utils_computeItemAngles (replicate 4 None) None ! i = 360 / real 4"
    using angle_solver_even_spacing [of 4] one unfolding Let_def by blast
  from this [rule_format, of 2] vals show ?thesis by simp
qed

section \<open>A drop after the pointer has left\<close>

text \<open>
  Claim C1. Let the last motion event have left the insertion index \<open>k\<close>. After the
  \<open>leave\<close> handler the current insertion index is unset and \<open>k\<close> is saved. The \<open>drop\<close>
  handler that runs next returns or throws what it would have without the \<open>leave\<close> and
  emits the same signals, and the index its signals carry is \<open>k\<close>: \<open>drop-item\<close> with
  \<open>k\<close> for an internal drag, \<open>drop-data\<close> with \<open>k\<close> for external data, \<open>drop-data\<close> with
  \<open>k + i\<close> for the non-empty line \<open>i\<close> of a URI list. It emits no drop signal in three
  cases only, none of which depends on the \<open>leave\<close>: the dropped string of an internal
  drag is not JSON, or in overview mode its type is unknown (both throw), or overview mode
  rejects the drop with a notification.
\<close>

theorem drop_after_leave_uses_saved_index:
  assumes "dropIndex s = Some k"
  shows "dropIndex (dropTarget_leave s) = None
    \<and> lastDropIndex (dropTarget_leave s) = Some k
    \<and> fst (dropTarget_drop parseItem ev (dropTarget_leave s)) = fst (dropTarget_drop parseItem ev s)
    \<and> fst (snd (dropTarget_drop parseItem ev (dropTarget_leave s)))
        = fst (snd (dropTarget_drop parseItem ev s))
    \<and> fst (snd (dropTarget_drop parseItem ev (dropTarget_leave s))) =
        (if internalDrag ev then
           (case parseItem (what ev) of
              InvalidJSON \<Rightarrow> []
            | UnknownType \<Rightarrow> if inMenuOverviewMode s then [] else [DropItem (what ev) k]
            | KnownType isMenu \<Rightarrow>
                if inMenuOverviewMode s \<and> \<not> isMenu
                then [Notification ''Actions cannot be turned into toplevel menus.'']
                else [DropItem (what ev) k])
         else if inMenuOverviewMode s
           then [Notification ''You can only create new Action items inside of Custom Menus.'']
         else if hasUriList ev then dropDataLines k 0 (splitLines (what ev))
         else [DropData (what ev) k])
    \<and> fst (dropTarget_drop parseItem ev (dropTarget_leave s)) =
        (if internalDrag ev then
           (case parseItem (what ev) of
              InvalidJSON \<Rightarrow> Inl SyntaxError
            | UnknownType \<Rightarrow> if inMenuOverviewMode s then Inl TypeError else Inr True
            | KnownType isMenu \<Rightarrow> Inr (\<not> (inMenuOverviewMode s \<and> \<not> isMenu)))
         else Inr (\<not> inMenuOverviewMode s))"
  using assms
  by (auto simp: dropTarget_leave_def dropTarget_drop_def inMenuOverviewMode_def Let_def
      split: parsedItem.splits)

theorem drop_after_leave_uses_saved_index_witness:
  "dropIndex (twoItemMenu\<lparr>dropIndex := Some 1\<rparr>) = Some 1
   \<and> fst (snd (dropTarget_drop menuParser uriDrop
                 (dropTarget_leave (twoItemMenu\<lparr>dropIndex := Some 1\<rparr>))))
       = [DropData ''a'' 1, DropData ''b'' 3]
   \<and> fst (dropTarget_drop menuParser helloDrop
            (dropTarget_leave (twoItemMenu\<lparr>dropIndex := Some 1\<rparr>)))
       = Inl SyntaxError"
proof -
  have h: "dropIndex (twoItemMenu\<lparr>dropIndex := Some 1\<rparr>) = Some 1" by simp
  have m: "\<not> inMenuOverviewMode (twoItemMenu\<lparr>dropIndex := Some 1\<rparr>)"
    by (simp add: inMenuOverviewMode_def twoItemMenu_def setItems_def classifyTransition_def
        clearOldItems_def Let_def)
  have u: "\<not> internalDrag uriDrop" "hasUriList uriDrop"
    by (simp_all add: uriDrop_def)
  have "fst (snd (dropTarget_drop menuParser uriDrop
                    (dropTarget_leave (twoItemMenu\<lparr>dropIndex := Some 1\<rparr>))))
        = dropDataLines 1 0 (splitLines (what uriDrop))"
    using drop_after_leave_uses_saved_index
            [OF h, of menuParser uriDrop, THEN conjunct2, THEN conjunct2, THEN conjunct2,
             THEN conjunct2, THEN conjunct1] m u
    by simp
  also have "\<dots> = [DropData ''a'' 1, DropData ''b'' 3]"
    by (simp add: uriDrop_def splitLines_def)
  finally have first: "fst (snd (dropTarget_drop menuParser uriDrop
                    (dropTarget_leave (twoItemMenu\<lparr>dropIndex := Some 1\<rparr>))))
        = [DropData ''a'' 1, DropData ''b'' 3]" .
  have second: "fst (dropTarget_drop menuParser helloDrop
            (dropTarget_leave (twoItemMenu\<lparr>dropIndex := Some 1\<rparr>)))
       = Inl SyntaxError"
    using drop_after_leave_uses_saved_index
            [OF h, of menuParser helloDrop, THEN conjunct2, THEN conjunct2, THEN conjunct2,
             THEN conjunct2, THEN conjunct2]
    by (simp add: helloDrop_def menuParser_def)
  show ?thesis using h first second by simp
qed

section \<open>The classification of the transition\<close>

text \<open>
  Claim C5. If the editor shows no center item and \<open>setItems\<close> is called with a center
  configuration and no parent angle, the upcoming transition is \<open>TRANSITION_A\<close>. If the
  editor shows a center item and has no parent angle and \<open>setItems\<close> is called without a
  center configuration, the upcoming transition is \<open>TRANSITION_B\<close>. Neither depends on
  the configurations given, on the items shown, on the selection or on the frame clock.
\<close>

theorem transition_A_and_B:
  "(centerItem s = None \<and> centerConfig \<noteq> None \<and> newParentAngle = None \<longrightarrow>
      upcomingTransition (setItems ft configs sel centerConfig newParentAngle s) = TRANSITION_A)
   \<and> (centerItem s \<noteq> None \<and> parentAngle s = None \<and> centerConfig = None \<longrightarrow>
      upcomingTransition (setItems ft configs sel centerConfig newParentAngle s) = TRANSITION_B)"
  by (simp add: setItems_def classifyTransition_def split: prod.splits)

theorem transition_A_and_B_witness:
  "centerItem initialEditor = None
   \<and> upcomingTransition
        (setItems None [plainConfig ''a'', plainConfig ''b''] None (Some (plainConfig ''m'')) None
           initialEditor) = TRANSITION_A
   \<and> centerItem twoItemMenu \<noteq> None \<and> parentAngle twoItemMenu = None
   \<and> upcomingTransition (setItems None [plainConfig ''m''] (Some 0) None None twoItemMenu)
       = TRANSITION_B"
proof -
  have a: "centerItem initialEditor = None"
    by (simp add: initialEditor_def)
  have b: "centerItem twoItemMenu \<noteq> None" "parentAngle twoItemMenu = None"
    by (simp_all add: twoItemMenu_def setItems_def classifyTransition_def clearOldItems_def
        Let_def)
  show ?thesis
    using a b
      transition_A_and_B [where s = initialEditor and centerConfig = "Some (plainConfig ''m'')"
        and newParentAngle = None and ft = None
        and configs = "[plainConfig ''a'', plainConfig ''b'']" and sel = None]
      transition_A_and_B [where s = twoItemMenu and centerConfig = None
        and newParentAngle = None and ft = None
        and configs = "[plainConfig ''m'']" and sel = "Some 0"]
    by simp
qed

section \<open>The drop zones of the overview\<close>

lemma js_rem_nonneg: "0 \<le> x \<Longrightarrow> 0 < m \<Longrightarrow> js_rem x m = x - m * of_int \<lfloor>x / m\<rfloor>"
  by (simp add: js_rem_def)

lemma clampToGrid_nonneg: "0 \<le> clampToGrid c v"
  by (simp add: clampToGrid_def)

lemma clampToGrid_upper: "0 \<le> c \<Longrightarrow> clampToGrid c v \<le> real_of_int (c * ItemSize GRID)"
  by (simp add: clampToGrid_def)

lemma inDropZone_iff:
  "0 \<le> x \<Longrightarrow> inDropZone x = (x - 130 * of_int \<lfloor>x / 130\<rfloor> < 130 / 4 \<or> x - 130 * of_int \<lfloor>x / 130\<rfloor> > 3 * 130 / 4)"
  by (simp add: inDropZone_def js_rem_nonneg Let_def)

lemma motion_overview:
  "inMenuOverviewMode s \<Longrightarrow>
   \<exists>s'. dropTarget_motion solve px py s = Inr (dropIndex s' \<noteq> None, s')
        \<and> dropIndex s' = dropIndex (motionOverview px py s)
        \<and> dropRow s' = dropRow (motionOverview px py s)
        \<and> dropColumn s' = dropColumn (motionOverview px py s)"
  by (simp add: dropTarget_motion_def Let_def)

text \<open>
  Claim C7. In overview mode the \<open>motion\<close> handler never fails. It clamps the pointer,
  made relative to the grid, into the grid bounds: \<open>x\<close> is the relative coordinate where
  that lies in \<open>[0, columns * S]\<close>, and the nearest of the two bounds elsewhere, that is
  \<open>max 0 (min (columns * S) (px - offset))\<close>; \<open>y\<close> likewise with the rows; \<open>S\<close> is the size
  of a grid item. Let \<open>r\<close> be \<open>x\<close> modulo \<open>S\<close>. The drop is accepted, and the insertion
  index set, exactly when \<open>r < S / 4\<close> or \<open>r > 3 * S / 4\<close>; then the drop column is
  \<open>floor (x / S + 1 / 2)\<close>, the drop row is \<open>floor (y / S)\<close> and the index is
  \<open>columns * row + column\<close>, at most the number of items. Everywhere else the drop row,
  the drop column and the insertion index are unset.
\<close>

theorem grid_drop_zone:
  assumes "inMenuOverviewMode s"
  shows "\<exists>accepted s'. dropTarget_motion solve px py s = Inr (accepted, s')
     \<and> (let S = real_of_int (ItemSize GRID);
             x = max 0 (min (real_of_int (columnCount s) * S) (px - gridOffsetX s));
             y = max 0 (min (real_of_int (rowCount s) * S) (py - gridOffsetY s));
             r = x - S * of_int \<lfloor>x / S\<rfloor>
         in 0 \<le> x \<and> 0 \<le> y
            \<and> (0 \<le> columnCount s \<longrightarrow> x \<le> real_of_int (columnCount s) * S)
            \<and> (0 \<le> rowCount s \<longrightarrow> y \<le> real_of_int (rowCount s) * S)
            \<and> accepted = (dropIndex s' \<noteq> None)
            \<and> (dropIndex s' \<noteq> None) = (r < S / 4 \<or> r > 3 * S / 4)
            \<and> (r < S / 4 \<or> r > 3 * S / 4 \<longrightarrow>
                 dropColumn s' = Some \<lfloor>x / S + 1 / 2\<rfloor>
                 \<and> dropRow s' = Some \<lfloor>y / S\<rfloor>
                 \<and> dropIndex s' = Some (nat (min (int (length (items s)))
                                      (columnCount s * \<lfloor>y / S\<rfloor> + \<lfloor>x / S + 1 / 2\<rfloor>))))
            \<and> (\<not> (r < S / 4 \<or> r > 3 * S / 4) \<longrightarrow>
                 dropColumn s' = None \<and> dropRow s' = None \<and> dropIndex s' = None))"
proof -
  let ?x = "clampToGrid (columnCount s) (px - gridOffsetX s)"
  let ?y = "clampToGrid (rowCount s) (py - gridOffsetY s)"
  have cx: "?x = max 0 (min (real_of_int (columnCount s) * 130) (px - gridOffsetX s))"
    and cy: "?y = max 0 (min (real_of_int (rowCount s) * 130) (py - gridOffsetY s))"
    by (simp_all add: clampToGrid_def)
  obtain s' where s': "dropTarget_motion solve px py s = Inr (dropIndex s' \<noteq> None, s')"
      "dropIndex s' = dropIndex (motionOverview px py s)"
      "dropRow s' = dropRow (motionOverview px py s)"
      "dropColumn s' = dropColumn (motionOverview px py s)"
    using motion_overview [OF assms] by blast
  have zone: "inDropZone ?x =
      (?x - 130 * of_int \<lfloor>?x / 130\<rfloor> < 130 / 4 \<or> ?x - 130 * of_int \<lfloor>?x / 130\<rfloor> > 3 * 130 / 4)"
    by (rule inDropZone_iff) (rule clampToGrid_nonneg)
  show ?thesis
    apply (rule exI [of _ "dropIndex s' \<noteq> None"])
    apply (rule exI [of _ s'])
    using s' zone clampToGrid_nonneg [of "columnCount s" "px - gridOffsetX s"]
      clampToGrid_nonneg [of "rowCount s" "py - gridOffsetY s"]
      clampToGrid_upper [of "columnCount s" "px - gridOffsetX s"]
      clampToGrid_upper [of "rowCount s" "py - gridOffsetY s"]
    unfolding cx cy
    by (simp add: Let_def motionOverview_def cx cy)
qed

theorem grid_drop_zone_witness:
  "inMenuOverviewMode fiveMenuGrid
   \<and> (\<exists>s'. dropTarget_motion utils_computeItemAngles 145 160 fiveMenuGrid = Inr (True, s')
          \<and> dropColumn s' = Some 1 \<and> dropRow s' = Some 1 \<and> dropIndex s' = Some 5)
   \<and> (\<exists>s'. dropTarget_motion utils_computeItemAngles 205 160 fiveMenuGrid = Inr (False, s')
          \<and> dropColumn s' = None \<and> dropRow s' = None \<and> dropIndex s' = None)
   \<and> (\<exists>s'. dropTarget_motion utils_computeItemAngles 10000 10000 fiveMenuGrid = Inr (True, s')
          \<and> dropColumn s' = Some 4 \<and> dropRow s' = Some 2 \<and> dropIndex s' = Some 5)
   \<and> (\<exists>s'. dropTarget_motion utils_computeItemAngles (- 50) (- 50) fiveMenuGrid = Inr (True, s')
          \<and> dropColumn s' = Some 0 \<and> dropRow s' = Some 0 \<and> dropIndex s' = Some 0)"
proof -
  have ov: "inMenuOverviewMode fiveMenuGrid"
    by (simp add: inMenuOverviewMode_def fiveMenuGrid_def fiveMenuOverview_def setItems_def
        classifyTransition_def clearOldItems_def initialEditor_def Let_def)
  have f: "columnCount fiveMenuGrid = 4" "rowCount fiveMenuGrid = 2"
    "gridOffsetX fiveMenuGrid = 10" "gridOffsetY fiveMenuGrid = 20"
    "length (items fiveMenuGrid) = 5"
    by (simp_all add: fiveMenuGrid_def fiveMenuOverview_def setItems_def
        classifyTransition_def clearOldItems_def initialEditor_def Let_def)
  have fl: "\<lfloor>(135::real) / 130\<rfloor> = 1" "\<lfloor>(135::real) / 130 + 1 / 2\<rfloor> = 1"
    "\<lfloor>(140::real) / 130\<rfloor> = 1" "\<lfloor>(195::real) / 130\<rfloor> = 1"
    "\<lfloor>(520::real) / 130\<rfloor> = 4" "\<lfloor>(520::real) / 130 + 1 / 2\<rfloor> = 4"
    "\<lfloor>(260::real) / 130\<rfloor> = 2"
    by (simp_all add: floor_eq_iff)
  have first: "\<exists>s'. dropTarget_motion utils_computeItemAngles 145 160 fiveMenuGrid = Inr (True, s')
          \<and> dropColumn s' = Some 1 \<and> dropRow s' = Some 1 \<and> dropIndex s' = Some 5"
    using grid_drop_zone [OF ov, of utils_computeItemAngles 145 160]
    by (auto simp: Let_def f fl)
  have second: "\<exists>s'. dropTarget_motion utils_computeItemAngles 205 160 fiveMenuGrid = Inr (False, s')
          \<and> dropColumn s' = None \<and> dropRow s' = None \<and> dropIndex s' = None"
    using grid_drop_zone [OF ov, of utils_computeItemAngles 205 160]
    by (auto simp: Let_def f fl)
  have third: "\<exists>s'. dropTarget_motion utils_computeItemAngles 10000 10000 fiveMenuGrid = Inr (True, s')
          \<and> dropColumn s' = Some 4 \<and> dropRow s' = Some 2 \<and> dropIndex s' = Some 5"
    using grid_drop_zone [OF ov, of utils_computeItemAngles 10000 10000]
    by (auto simp: Let_def f fl)
  have fourth: "\<exists>s'. dropTarget_motion utils_computeItemAngles (- 50) (- 50) fiveMenuGrid = Inr (True, s')
          \<and> dropColumn s' = Some 0 \<and> dropRow s' = Some 0 \<and> dropIndex s' = Some 0"
    using grid_drop_zone [OF ov, of utils_computeItemAngles "- 50" "- 50"]
    by (auto simp: Let_def f fl)
  show ?thesis using ov first second third fourth by blast
qed

section \<open>The grid of the overview\<close>

lemma gridShape_Some:
  assumes "ItemSize GRID \<le> w"
  shows "gridShape w n =
     Some (if \<lceil>real n / real_of_int (w div ItemSize GRID)\<rceil> = 1 then int n else w div ItemSize GRID,
           \<lceil>real n / real_of_int (w div ItemSize GRID)\<rceil>)"
proof -
  have "0 < w div ItemSize GRID"
    using assms by (simp add: pos_imp_zdiv_pos_iff)
  then show ?thesis by (simp add: gridShape_def Let_def)
qed

lemma dropShift_no_drop: "dropRow s = None \<Longrightarrow> dropShift s row column = 0"
  by (simp add: dropShift_def)

text \<open>The layout pass that leads from \<open>fiveMenuOverview\<close> to \<open>fiveMenuGrid\<close>.\<close>

lemma fiveMenuOverview_allocated:
  "map_option fst (allocateOverview 540 300 fiveMenuOverview) = Some fiveMenuGrid"
proof -
  have fl: "\<lceil>(5::real) / 4\<rceil> = 2"
    by (simp add: ceiling_eq_iff)
  have n: "length (items fiveMenuOverview) = 5"
    by (simp add: fiveMenuOverview_def setItems_def classifyTransition_def clearOldItems_def
        Let_def)
  show ?thesis
    by (simp add: allocateOverview_def gridShape_def n fl gridOffset_def fiveMenuGrid_def Let_def)
qed

text \<open>
  Claim C6, amended. Let the widget be at least one grid item wide and let there be
  \<open>n \<ge> 1\<close> items; \<open>S\<close> is the size of a grid item. The row count is
  \<open>ceiling (n / floor (w / S))\<close>. The column count is \<open>floor (w / S)\<close>, except that a single
  row has \<open>n\<close> columns. The grid is centered: its offsets are \<open>(w - columns * S) / 2\<close> and
  \<open>(h - rows * S) / 2\<close>. Item \<open>i\<close> is in the cell \<open>(i mod columns, i div columns)\<close>, at
  the offset plus \<open>S\<close> times the cell, moved sideways by the shift that makes space for a
  pending drop; the shift is zero when no drop row is set.
\<close>

theorem overview_grid_layout:
  assumes "ItemSize GRID \<le> w" and "items s \<noteq> []"
  shows "\<exists>s' ts. allocateOverview w h s = Some (s', ts)
     \<and> (let n = length (items s); S = ItemSize GRID in
         rowCount s' = \<lceil>real n / real_of_int \<lfloor>real_of_int w / real_of_int S\<rfloor>\<rceil>
         \<and> columnCount s' = (if rowCount s' = 1 then int n else \<lfloor>real_of_int w / real_of_int S\<rfloor>)
         \<and> gridOffsetX s' = real_of_int (w - columnCount s' * S) / 2
         \<and> gridOffsetY s' = real_of_int (h - rowCount s' * S) / 2
         \<and> length ts = n
         \<and> (\<forall>i < n. gridCell (columnCount s') i = (int i mod columnCount s', int i div columnCount s')
                \<and> ts ! i =
                   (gridOffsetX s' + real_of_int (fst (gridCell (columnCount s') i) * S
                        + dropShift s (snd (gridCell (columnCount s') i)) (fst (gridCell (columnCount s') i))),
                    gridOffsetY s' + real_of_int (snd (gridCell (columnCount s') i) * S)))
         \<and> (dropRow s = None \<longrightarrow> (\<forall>row column. dropShift s row column = 0)))"
proof -
  have fl: "\<lfloor>real_of_int w / real_of_int (ItemSize GRID)\<rfloor> = w div ItemSize GRID"
    by (simp add: floor_divide_of_int_eq del: ItemSize.simps)
  show ?thesis
    using gridShape_Some [OF assms(1), of "length (items s)"] dropShift_no_drop [of s]
    by (auto simp: allocateOverview_def fl Let_def gridTarget_def gridCell_def gridOffset_def
        simp del: ItemSize.simps)
qed


theorem overview_grid_layout_witness:
  "ItemSize GRID \<le> 540 \<and> items fiveMenuOverview \<noteq> []
   \<and> (\<exists>s' ts. allocateOverview 540 300 fiveMenuOverview = Some (s', ts)
         \<and> columnCount s' = 4 \<and> rowCount s' = 2 \<and> gridOffsetX s' = 10 \<and> gridOffsetY s' = 20
         \<and> ts ! 4 = (10, 150))"
proof -
  have w: "ItemSize GRID \<le> 540" by simp
  have its: "items fiveMenuOverview \<noteq> []" and n: "length (items fiveMenuOverview) = 5"
    and nodrop: "dropRow fiveMenuOverview = None"
    by (simp_all add: fiveMenuOverview_def setItems_def classifyTransition_def clearOldItems_def
        initialEditor_def Let_def)
  have fl: "\<lfloor>(540::real) / 130\<rfloor> = 4" "\<lceil>(5::real) / 4\<rceil> = 2"
    by (simp_all add: floor_eq_iff ceiling_eq_iff)
  obtain s' ts where a: "allocateOverview 540 300 fiveMenuOverview = Some (s', ts)"
    and r: "rowCount s' = 2" and c: "columnCount s' = 4"
    and ox: "gridOffsetX s' = 10" and oy: "gridOffsetY s' = 20"
    and t4: "ts ! 4 =
                   (gridOffsetX s' + real_of_int (fst (gridCell (columnCount s') 4) * ItemSize GRID
                        + dropShift fiveMenuOverview (snd (gridCell (columnCount s') 4)) (fst (gridCell (columnCount s') 4))),
                    gridOffsetY s' + real_of_int (snd (gridCell (columnCount s') 4) * ItemSize GRID))"
    using overview_grid_layout [OF w its, of 300] by (auto simp: Let_def n fl)
  have "ts ! 4 = (10, 150)"
    using t4 by (simp add: c ox oy gridCell_def dropShift_def nodrop)
  then show ?thesis using w its a r c ox oy by blast
qed

text \<open>
  The claim as stated gives the column count \<open>floor (w / S)\<close> for every width and item
  count. Two items in a widget 540 wide are laid out in two columns, not in four.
\<close>

theorem overview_single_row_counterexample:
  "map_option (columnCount \<circ> fst) (allocateOverview 540 300 twoMenuOverview) = Some 2
   \<and> \<lfloor>(540::real) / real_of_int (ItemSize GRID)\<rfloor> = 4
   \<and> map_option (columnCount \<circ> fst) (allocateOverview 540 300 twoMenuOverview)
       \<noteq> Some \<lfloor>(540::real) / real_of_int (ItemSize GRID)\<rfloor>"
proof -
  have fl: "\<lfloor>(540::real) / 130\<rfloor> = 4" "\<lceil>(1::real) / 2\<rceil> = 1"
    by (simp_all add: floor_eq_iff ceiling_eq_iff)
  have c: "map_option (columnCount \<circ> fst) (allocateOverview 540 300 twoMenuOverview) = Some 2"
    by (simp add: allocateOverview_def gridShape_def twoMenuOverview_def setItems_def
        classifyTransition_def clearOldItems_def initialEditor_def Let_def fl)
  have f: "\<lfloor>(540::real) / real_of_int (ItemSize GRID)\<rfloor> = 4"
    by (simp add: fl)
  show ?thesis unfolding c f by simp
qed

section \<open>The drop index between several items\<close>

text \<open>
  Four items a quarter of the circle apart: a pointer between the second and the third
  gives index 2; in the last wedge the half next to the last item gives the index behind
  it and the half next to the first item gives index 0. With fewer items than angles the
  handler throws.
\<close>

lemma wedges_of_four_items:
  "resolveDropIndex 100 [Some 0, Some 90, Some 180, Some 270] fourItems None = Inr (Some 2)"
  "resolveDropIndex 280 [Some 0, Some 90, Some 180, Some 270] fourItems None = Inr (Some 4)"
  "resolveDropIndex 350 [Some 0, Some 90, Some 180, Some 270] fourItems None = Inr (Some 0)"
  "resolveDropIndex 100 [Some 0, Some 90, Some 180, Some 270] (take 1 fourItems) None = Inl TypeError"
  by (simp_all add: resolveDropIndex_def fourItems_def upt_conv_Cons wedgePadding_def
      createItem_def plainConfig_def)

section \<open>The drop index next to a single item\<close>

text \<open>
  With one item that is not dragged, a solver that returns the angle \<open>a\<close> for it and the
  pointer outside the center item, the \<open>motion\<close> handler sets the drop index to 0 or 1 by
  the comparison of the pointer angle with \<open>a\<close>.
\<close>

lemma single_item_motion:
  assumes "items s = [it]" "dragIndex s = None" "solve [angleEntry it] (parentAngle s) = [a]"
    and "sqrt ((px - real_of_int (width s) / 2) * (px - real_of_int (width s) / 2)
             + (py - real_of_int (height s) / 2) * (py - real_of_int (height s) / 2))
         > real_of_int (ItemSize CENTER) / 2"
  shows "motionEdit solve px py s =
     Inr (s\<lparr>dropIndex := Some (if beforeItem (pointerAngle (px - real_of_int (width s) / 2)
                                                  (py - real_of_int (height s) / 2)) (Some a)
                                   then 0 else 1)\<rparr>)"
proof -
  have "computeItemAngles solve (s\<lparr>dropIndex := None\<rparr>) = [Some a]"
    using assms(1-3) by (simp add: computeItemAngles_def fixedAngles_def)
  then show ?thesis
    using assms by (simp add: motionEdit_def Let_def resolveDropIndex_def)
qed

lemma circularDistance_cases:
  assumes "0 \<le> m" "m < 360" "0 \<le> a" "a < 360"
  shows "circularDistance m a < 90 \<longleftrightarrow>
           (m - a < 90 \<and> - 90 < m - a) \<or> 270 < m - a \<or> m - a < - 270"
  using assms by (auto simp: circularDistance_def min_def abs_if)

text \<open>
  Claim C4, amended. Let there be one item angle \<open>a\<close> and a pointer angle \<open>m\<close>, both in
  \<open>[0, 360)\<close>, and no dragged item. If the circular distance of \<open>m\<close> and \<open>a\<close> is less
  than 90 degrees the drop index is 0. If \<open>m\<close> is not below \<open>a\<close> and the circular distance
  is at least 90 degrees the drop index is 1; so it is for the pointer at \<open>a + 180\<close>. At a
  circular distance of 45 degrees the index is 0. With a dragged item and a single angle
  the index is always 0.
\<close>

theorem single_item_drop:
  assumes "0 \<le> m" "m < 360" "0 \<le> a" "a < 360"
  shows "(circularDistance m a < 90 \<longrightarrow> resolveDropIndex m [Some a] its None = Inr (Some 0))
     \<and> (a \<le> m \<and> 90 \<le> circularDistance m a \<longrightarrow>
          resolveDropIndex m [Some a] its None = Inr (Some 1))
     \<and> (m = a + 180 \<longrightarrow> resolveDropIndex m [Some a] its None = Inr (Some 1))
     \<and> (circularDistance m a = 45 \<longrightarrow> resolveDropIndex m [Some a] its None = Inr (Some 0))
     \<and> resolveDropIndex m [ang] its (Some g) = Inr (Some 0)"
  using assms circularDistance_cases [OF assms]
  by (auto simp: resolveDropIndex_def beforeItem_def circularDistance_def min_def abs_if
      split: if_splits)

theorem single_item_drop_witness:
  "(0::real) \<le> 225 \<and> (225::real) < 360 \<and> (0::real) \<le> 180 \<and> (180::real) < 360
   \<and> circularDistance 225 180 = 45
   \<and> resolveDropIndex 225 [Some 180] (items twoItemMenu) None = Inr (Some 0)
   \<and> circularDistance 270 90 = 180
   \<and> resolveDropIndex 270 [Some 90] (items twoItemMenu) None = Inr (Some 1)"
proof -
  have d: "circularDistance 225 180 = 45" "circularDistance 270 90 = 180"
    by (simp_all add: circularDistance_def)
  have "resolveDropIndex 225 [Some 180] (items twoItemMenu) None = Inr (Some 0)"
    using single_item_drop [of 225 180 "items twoItemMenu" "Some 0" 0] d by simp
  moreover have "resolveDropIndex 270 [Some 90] (items twoItemMenu) None = Inr (Some 1)"
    using single_item_drop [of 270 90 "items twoItemMenu" "Some 0" 0] d by simp
  ultimately show ?thesis using d by simp
qed

text \<open>
  The claim as stated gives index 0 up to a circular distance of 90 degrees inclusive.
  The comparison of the source is strict: at exactly 90 degrees the index is 1.
\<close>

theorem single_item_drop_counterexample:
  "circularDistance 90 0 \<le> 90
   \<and> resolveDropIndex 90 [Some 0] [createItem (plainConfig ''a'') CHILD] None = Inr (Some 1)"
  by (simp add: circularDistance_def resolveDropIndex_def beforeItem_def)

text \<open>
  The source compares the difference \<open>m - a\<close> without wrapping it into \<open>[0, 360)\<close>: a
  pointer angle below the item angle always gives index 0, also opposite the item.
\<close>

lemma single_item_drop_below_item:
  "circularDistance 0 180 = 180
   \<and> resolveDropIndex 0 [Some 180] [createItem (plainConfig ''a'') CHILD] None = Inr (Some 0)"
  by (simp add: circularDistance_def resolveDropIndex_def beforeItem_def)

section \<open>The length and the duplicate of \<open>_computeItemAngles\<close>\<close>

text \<open>
  The lemmas of this section take any solver that returns one angle per entry, a drag
  index that is an index of the items and a drop index of at most the number of items.
\<close>

lemma length_fixedAnglesFrom:
  "length (fixedAnglesFrom i its drag dropI) =
     length its
     - (case drag of None \<Rightarrow> 0 | Some g \<Rightarrow> if i \<le> g \<and> g < i + length its then 1 else 0)
     + (case dropI of None \<Rightarrow> 0 | Some d \<Rightarrow> if i \<le> d \<and> d < i + length its then 1 else 0)"
  by (induction its arbitrary: i) (auto split: option.splits)

lemma length_fixedAngles:
  assumes "case dragIndex s of None \<Rightarrow> True | Some g \<Rightarrow> g < length (items s)"
    and "case dropIndex s of None \<Rightarrow> True | Some d \<Rightarrow> d \<le> length (items s)"
  shows "length (fixedAngles s) =
     length (items s) - (if dragIndex s = None then 0 else 1) + (if dropIndex s = None then 0 else 1)"
  using assms by (auto simp: fixedAngles_def length_fixedAnglesFrom split: option.splits)

lemma length_spliceRemove:
  "length (spliceRemove i xs) = (if i < length xs then length xs - 1 else length xs)"
  by (auto simp: spliceRemove_def)

lemma length_spliceInsert: "length (spliceInsert i v xs) = Suc (length xs)"
  by (auto simp: spliceInsert_def)

text \<open>
  The returned array has one angle per item in every state but one: when the last item
  is dragged and the drop index is behind it, it has one more.
\<close>

lemma computeItemAngles_length:
  assumes solve: "\<And>es p. length (solve es p) = length es"
    and drag: "case dragIndex s of None \<Rightarrow> True | Some g \<Rightarrow> g < length (items s)"
    and dropI: "case dropIndex s of None \<Rightarrow> True | Some d \<Rightarrow> d \<le> length (items s)"
  shows "length (computeItemAngles solve s) =
     (if dropIndex s = Some (length (items s)) \<and> dragIndex s = Some (length (items s) - 1)
      then length (items s) + 1 else length (items s))"
proof -
  let ?n = "length (items s)"
  let ?angles = "map Some (solve (fixedAngles s) (parentAngle s))"
  have len: "length ?angles =
      ?n - (if dragIndex s = None then 0 else 1) + (if dropIndex s = None then 0 else 1)"
    using length_fixedAngles [OF drag dropI] by (simp add: solve)
  show ?thesis
  proof (cases "dragIndex s")
    case None
    then show ?thesis
      using dropI len
      by (cases "dropIndex s") (simp_all add: computeItemAngles_def Let_def length_spliceRemove)
  next
    case (Some g)
    with drag have g: "g < ?n" by simp
    show ?thesis
    proof (cases "dropIndex s")
      case None
      then show ?thesis
        using Some g len by (simp add: computeItemAngles_def Let_def length_spliceInsert)
    next
      case (Some d)
      with dropI have d: "d \<le> ?n" by simp
      have "length (spliceRemove (if d > g + 1 then d - 1 else d) ?angles) =
          (if d = ?n \<and> Suc g = ?n then ?n else ?n - 1)"
        using g d len \<open>dragIndex s = Some g\<close> Some
        by (simp add: length_spliceRemove del: length_map) arith
      then show ?thesis
        using g d \<open>dragIndex s = Some g\<close> Some
        by (auto simp: computeItemAngles_def Let_def length_spliceInsert)
    qed
  qed
qed

lemma spliceInsert_duplicate:
  assumes "g \<le> length a"
  shows "spliceInsert g (readModLength a g) a ! g
       = spliceInsert g (readModLength a g) a ! (Suc g mod Suc (length a))"
proof (cases "g < length a")
  case True
  then have "a \<noteq> []" by auto
  with True show ?thesis
    by (simp add: spliceInsert_def readModLength_def nth_append)
next
  case False
  with assms have g: "g = length a" by simp
  show ?thesis
    by (cases a) (simp_all add: g spliceInsert_def readModLength_def nth_append)
qed

text \<open>
  Outside that state the dragged item has the angle of the item after it, the first item
  after the last one.
\<close>

lemma computeItemAngles_dragged:
  assumes solve: "\<And>es p. length (solve es p) = length es"
    and drag: "dragIndex s = Some g" "g < length (items s)"
    and dropI: "case dropIndex s of None \<Rightarrow> True
                | Some d \<Rightarrow> d \<le> length (items s) \<and> \<not> (d = length (items s) \<and> Suc g = length (items s))"
  shows "computeItemAngles solve s ! g = computeItemAngles solve s ! (Suc g mod length (items s))"
proof -
  define a where "a =
     (case dropIndex s of
               None \<Rightarrow> map Some (solve (fixedAngles s) (parentAngle s))
             | Some d \<Rightarrow> spliceRemove (if d > g + 1 then d - 1 else d) (map Some (solve (fixedAngles s) (parentAngle s))))"
  have r: "computeItemAngles solve s = spliceInsert g (readModLength a g) a"
    by (simp add: computeItemAngles_def a_def drag Let_def split: option.splits)
  have "length a = length (items s) - 1"
    using drag dropI
    by (auto simp: a_def solve length_fixedAngles length_spliceRemove split: option.splits)
  with drag have "Suc (length a) = length (items s)" "g \<le> length a" by simp_all
  with spliceInsert_duplicate [of g a] show ?thesis by (simp add: r)
qed

text \<open>
  Without a drop index the solver is given the entries of the other items only, as if the
  dragged item did not exist.
\<close>

lemma fixedAnglesFrom_omit:
  "g < length its \<Longrightarrow>
   fixedAnglesFrom i its (Some (i + g)) None = map angleEntry (take g its @ drop (Suc g) its)"
proof (induction its arbitrary: i g)
  case Nil
  then show ?case by simp
next
  case (Cons it its)
  show ?case
  proof (cases g)
    case 0
    have "fixedAnglesFrom (Suc i) its (Some i) None = map angleEntry its" for its
    proof -
      have "fixedAnglesFrom j its (Some i) None = map angleEntry its" if "i < j" for j its
        using that by (induction its arbitrary: j) auto
      then show ?thesis by simp
    qed
    with 0 show ?thesis by simp
  next
    case (Suc g')
    with Cons.prems have "g' < length its" by simp
    from Cons.IH [OF this, of "Suc i"] Suc show ?thesis by simp
  qed
qed

lemma fixedAngles_omit_dragged:
  assumes "dragIndex s = Some g" "g < length (items s)" "dropIndex s = None"
  shows "fixedAngles s = map angleEntry (take g (items s) @ drop (Suc g) (items s))"
  using assms fixedAnglesFrom_omit [of g "items s" 0] by (simp add: fixedAngles_def)

text \<open>
  Six items without fixed angles, the third one dragged, no parent angle: the other five
  are 72 degrees apart and the dragged item has the angle of the fourth.
\<close>

lemma sixItems_third_dragged:
  "computeItemAngles utils_computeItemAngles (sixItemMenu\<lparr>dragIndex := Some 2\<rparr>)
   = [Some 0, Some 72, Some 144, Some 144, Some 216, Some 288]"
proof -
  have sol: "utils_computeItemAngles [None, None, None, None, None] None = [0, 72, 144, 216, 288]"
    by (simp add: utils_computeItemAngles_def fixedEntries_def upt_conv_Cons)
  have its: "items sixItemMenu = map (\<lambda>n. createItem (plainConfig n) CHILD) [''a'', ''b'', ''c'', ''d'', ''e'', ''f'']"
    and f: "parentAngle sixItemMenu = None" "dropIndex sixItemMenu = None"
    by (simp_all add: sixItemMenu_def setItems_def classifyTransition_def clearOldItems_def
      initialEditor_def Let_def)
  have e: "angleEntry (createItem (plainConfig n) CHILD) = None" for n
    by (simp add: angleEntry_def createItem_def plainConfig_def)
  have fa: "fixedAngles (sixItemMenu\<lparr>dragIndex := Some 2\<rparr>) = [None, None, None, None, None]"
    by (simp add: fixedAngles_def its f e)
  show ?thesis
    by (simp add: computeItemAngles_def fa sol f spliceInsert_def readModLength_def)
qed

text \<open>
  The state \<open>lastDraggedPastEnd\<close> is the one the \<open>motion\<close> handler leaves when the second
  of two items is dragged and the pointer is below the center, opposite the first item,
  here on a widget of width 540 and height 300.
\<close>

lemma pointerAngle_down: "pointerAngle 0 100 = 180"
proof -
  have "sqrt (0 * 0 + 100 * 100) = (100::real)"
    using real_sqrt_mult_self [of 100] by simp
  then show ?thesis
    by (simp add: pointerAngle_def Let_def js_rem_def)
qed

lemma drag_last_of_two_motion:
  "motionEdit utils_computeItemAngles 270 250
     (twoItemMenu\<lparr>width := 540, height := 300, dragIndex := Some 1\<rparr>)
     = Inr (lastDraggedPastEnd\<lparr>width := 540, height := 300\<rparr>)"
proof -
  have d: "sqrt (0 * 0 + 100 * 100) = (100::real)"
    using real_sqrt_mult_self [of 100] by simp
  have f: "items twoItemMenu = [createItem (plainConfig ''a'') CHILD, createItem (plainConfig ''b'') CHILD]"
    "parentAngle twoItemMenu = None"
    by (simp_all add: twoItemMenu_def setItems_def classifyTransition_def clearOldItems_def
      initialEditor_def Let_def)
  have a: "computeItemAngles utils_computeItemAngles
             (twoItemMenu\<lparr>width := 540, height := 300, dragIndex := Some (Suc 0),
                          dropIndex := None\<rparr>)
      = [Some 0, Some 0]"
    by (simp add: computeItemAngles_def f fixedAngles_def
      utils_computeItemAngles_def fixedEntries_def spliceRemove_def spliceInsert_def
      createItem_def plainConfig_def angleEntry_def readModLength_def Let_def upt_conv_Cons)
  show ?thesis
    by (simp add: motionEdit_def lastDraggedPastEnd_def Let_def f d pointerAngle_down a
        resolveDropIndex_def beforeItem_def)
qed

lemma twoItemMenu_fields:
  "items twoItemMenu = [createItem (plainConfig ''a'') CHILD, createItem (plainConfig ''b'') CHILD]"
  "centerItem twoItemMenu = Some (createItem (plainConfig ''m'') CENTER)"
  "parentAngle twoItemMenu = None" "oldItems twoItemMenu = []" "lastHideTime twoItemMenu = 0"
  by (simp_all add: twoItemMenu_def setItems_def classifyTransition_def clearOldItems_def
      initialEditor_def Let_def)

lemma lastDraggedPastEnd_angles:
  "computeItemAngles utils_computeItemAngles lastDraggedPastEnd = [Some 0, Some 180, Some 180]"
  by (simp add: computeItemAngles_def lastDraggedPastEnd_def twoItemMenu_fields fixedAngles_def
      utils_computeItemAngles_def fixedEntries_def spliceRemove_def spliceInsert_def
      createItem_def plainConfig_def angleEntry_def readModLength_def Let_def upt_conv_Cons)

text \<open>
  Claim C10 (the length of the returned array is the number of items in every state of
  the edit mode). In the state \<open>lastDraggedPastEnd\<close> there are two items, the drag index
  is 1 and the drop index is 2; the solver returns one angle per entry; the function
  returns three angles. The gap entry is the last of the solver's two angles, at index 1,
  and the function removes index 2, which does not exist.
\<close>

theorem computeItemAngles_length_mismatch:
  "dragIndex lastDraggedPastEnd = Some 1 \<and> dropIndex lastDraggedPastEnd = Some 2
   \<and> length (items lastDraggedPastEnd) = 2
   \<and> length (utils_computeItemAngles (fixedAngles lastDraggedPastEnd) (parentAngle lastDraggedPastEnd))
       = length (fixedAngles lastDraggedPastEnd)
   \<and> length (computeItemAngles utils_computeItemAngles lastDraggedPastEnd) = 3"
  by (simp add: lastDraggedPastEnd_angles)
     (simp add: lastDraggedPastEnd_def twoItemMenu_fields fixedAngles_def
      utils_computeItemAngles_def fixedEntries_def Let_def)

text \<open>
  Claim C2 (the dragged item gets the angle of the item after it, the first item after
  the last one). In the state \<open>lastDraggedPastEnd\<close> the dragged item is the last of two
  items; it gets 180 degrees, the angle of the drop gap, and the first item is at 0
  degrees.
\<close>

theorem computeItemAngles_dragged_not_successor:
  "dragIndex lastDraggedPastEnd = Some 1 \<and> length (items lastDraggedPastEnd) = 2
   \<and> computeItemAngles utils_computeItemAngles lastDraggedPastEnd ! 1 = Some 180
   \<and> computeItemAngles utils_computeItemAngles lastDraggedPastEnd ! (Suc 1 mod 2) = Some 0"
  by (simp add: lastDraggedPastEnd_angles)
     (simp add: lastDraggedPastEnd_def twoItemMenu_fields)

section \<open>The old items of \<open>setItems\<close>\<close>

text \<open>
  With a frame clock, \<open>setItems\<close> keeps the old items exactly when the frame time is
  at most \<open>_lastHideTime + TRANSITION_DURATION\<close>, and hides the current items.
\<close>

lemma setItems_oldItems:
  "oldItems (setItems (Some now) configs sel centerConfig newParentAngle s) =
     map hideItem ((if lastHideTime s + TRANSITION_DURATION < now then [] else oldItems s)
                   @ items s @ (case centerItem s of None \<Rightarrow> [] | Some c \<Rightarrow> [c]))"
  "lastHideTime (setItems (Some now) configs sel centerConfig newParentAngle s) = now"
  by (simp_all add: setItems_def clearOldItems_def split: prod.splits)

text \<open>
  Claim C8 (a superseded item is kept for at least one full transition duration). The
  menu \<open>m\<close> with the children \<open>a\<close> and \<open>b\<close> is replaced at frame time 1000000 by the
  submenu \<open>a\<close>: the transition is \<open>TRANSITION_C\<close>, the items \<open>a\<close>, \<open>b\<close> and \<open>m\<close> are hidden
  and kept, and a layout pass at that frame time lets their animation end at time 1350.
  The next \<open>setItems\<close>, at frame time 1016000, which is the layout time 1016, keeps none
  of them: the old items are then the two items it has just hidden itself. \<open>setItems\<close>
  adds \<open>TRANSITION_DURATION\<close> to the frame time as the clock gives it, the layout pass to
  the frame time divided by 1000.
\<close>

theorem setItems_discards_during_animation:
  "upcomingTransition (submenuAt 1000000 ''a'' ''c'' twoItemMenu) = TRANSITION_C
   \<and> oldItems (submenuAt 1000000 ''a'' ''c'' twoItemMenu) =
       map hideItem [createItem (plainConfig ''a'') CHILD, createItem (plainConfig ''b'') CHILD,
                     createItem (plainConfig ''m'') CENTER]
   \<and> lastHideTime (submenuAt 1000000 ''a'' ''c'' twoItemMenu) = 1000000
   \<and> animationEndTime 1000000 = 1350
   \<and> layoutTime 1016000 = 1016
   \<and> oldItems (submenuAt 1016000 ''c'' ''d'' (submenuAt 1000000 ''a'' ''c'' twoItemMenu)) =
       map hideItem [createItem (plainConfig ''c'') CHILD, createItem (plainConfig ''a'') CENTER]"
  by (simp add: submenuAt_def setItems_oldItems twoItemMenu_fields TRANSITION_DURATION_def
      animationEndTime_def layoutTime_def)
     (simp add: setItems_def classifyTransition_def clearOldItems_def wentOneLevelDeeper_def
      twoItemMenu_fields sameMenu_def createItem_def plainConfig_def Let_def)

section \<open>Applying the same configuration twice\<close>

text \<open>
  What a layout pass does to a position: the target becomes the end position, and the
  moves of \<open>TRANSITION_C\<close> and \<open>TRANSITION_D\<close> change the start of the new items only.
\<close>

lemma endPosition_setAnimation:
  "endPosition (Some (setAnimation pf r t target old)) = Some target"
  by (cases target) (auto simp: endPosition_def setAnimation_def Let_def split: option.splits prod.splits)

lemma animateItem_simps:
  "getConfig (animateItem pf r t target it) = getConfig it"
  "state (animateItem pf r t target it) = state it"
  "hasXY (animateItem pf r t target it)"
  "endPosition (xy (animateItem pf r t target it)) = Some target"
  by (simp_all add: animateItem_def hasXY_def endPosition_setAnimation)

lemma slideIn_simps:
  "getConfig (slideIn ox oy it) = getConfig it"
  "state (slideIn ox oy it) = state it"
  "hasXY (slideIn ox oy it) = hasXY it"
  "endPosition (xy (slideIn ox oy it)) = endPosition (xy it)"
  by (cases "xy it"; auto simp: slideIn_def hasXY_def endPosition_def split: prod.splits)+

lemma slideOut_hasXY: "hasXY it \<Longrightarrow> hasXY (slideOut pf r t ox oy it)"
  by (auto simp: slideOut_def animateItem_simps split: option.splits)

lemma animateFirstMatch_hasXY:
  "list_all hasXY its \<Longrightarrow> (\<And>it. hasXY it \<Longrightarrow> hasXY (f it)) \<Longrightarrow> list_all hasXY (animateFirstMatch f c its)"
  by (induction its) auto

lemma length_allocateOverview:
  "allocateOverview w h s = Some (s', ts) \<Longrightarrow> length ts = length (items s)"
  by (auto simp: allocateOverview_def split: option.splits)

lemma length_editTargets: "length (editTargets pf solve w h s) = length (items s)"
  by (simp add: editTargets_def)

lemma length_itemTargets:
  "itemTargets pf solve w h s = Some ts \<Longrightarrow> length ts = length (items s)"
  by (auto simp: itemTargets_def length_editTargets length_allocateOverview split: option.splits)

lemma map_zip_animate:
  assumes "length ts = length its"
  shows "map (\<lambda>it. endPosition (xy it)) (map (\<lambda>(t, it). animateItem pf r time (g t) it) (zip ts its))
           = map (\<lambda>t. Some (g t)) ts"
    and "map getConfig (map (\<lambda>(t, it). animateItem pf r time (g t) it) (zip ts its)) = map getConfig its"
    and "list_all hasXY (map (\<lambda>(t, it). animateItem pf r time (g t) it) (zip ts its))"
  using assms
  by (induction ts its rule: list_induct2) (simp_all add: animateItem_simps)


lemma map_zip_animate_id:
  assumes "length ts = length its"
  shows "map (\<lambda>it. endPosition (xy it)) (map (\<lambda>(t, it). animateItem pf r time t it) (zip ts its))
           = map Some ts"
    and "map getConfig (map (\<lambda>(t, it). animateItem pf r time t it) (zip ts its)) = map getConfig its"
    and "list_all hasXY (map (\<lambda>(t, it). animateItem pf r time t it) (zip ts its))"
  using assms
  by (induction ts its rule: list_induct2) (simp_all add: animateItem_simps)

lemma allocateOverview_fields:
  assumes "allocateOverview w h s = Some (s', ts)"
  shows "items s' = items s" "centerItem s' = centerItem s" "oldItems s' = oldItems s"
    "parentAngle s' = parentAngle s" "dragIndex s' = dragIndex s" "dropIndex s' = dropIndex s"
    "dropRow s' = dropRow s" "dropColumn s' = dropColumn s"
    "upcomingTransition s' = upcomingTransition s" "transitionAngle s' = transitionAngle s"
    "restartAnimation s' = restartAnimation s" "backButton s' = backButton s"
    "selectedItem s' = selectedItem s" "lastHideTime s' = lastHideTime s"
  using assms by (auto simp: allocateOverview_def split: option.splits)

text \<open>
  The first part of the pass: it fails exactly when the items have no finite targets;
  otherwise every item and the center item end at their targets, and the old items, the
  parent angle, the transition and the drag and drop state are as before.
\<close>

lemma placeItems_None: "(placeItems pf solve w h time s = None) = (itemTargets pf solve w h s = None)"
  by (auto simp: placeItems_def itemTargets_def split: option.splits)

lemma placeItems_Some:
  assumes "placeItems pf solve w h time s = Some s1"
  shows "\<exists>ts. itemTargets pf solve w h s = Some ts
              \<and> map (\<lambda>it. endPosition (xy it)) (items s1) = map Some ts"
    and "map getConfig (items s1) = map getConfig (items s)"
    and "list_all hasXY (items s1)"
    and "map_option getConfig (centerItem s1) = map_option getConfig (centerItem s)"
    and "map_option (\<lambda>c. endPosition (xy c)) (centerItem s1)
          = map_option (\<lambda>c. Some (finitePosition (centeredAt w h (state c)))) (centerItem s)"
    and "case centerItem s1 of None \<Rightarrow> True | Some c \<Rightarrow> hasXY c"
    and "oldItems s1 = oldItems s" "parentAngle s1 = parentAngle s"
    and "upcomingTransition s1 = upcomingTransition s" "transitionAngle s1 = transitionAngle s"
    and "restartAnimation s1 = restartAnimation s" "backButton s1 = backButton s"
    and "dragIndex s1 = dragIndex s" "dropIndex s1 = dropIndex s"
    and "dropRow s1 = dropRow s" "dropColumn s1 = dropColumn s"
proof -
  show "\<exists>ts. itemTargets pf solve w h s = Some ts
              \<and> map (\<lambda>it. endPosition (xy it)) (items s1) = map Some ts"
  proof (cases "centerItem s")
    case None
    with assms obtain s' ts where a: "allocateOverview w h s = Some (s', ts)"
      and s1: "s1 = s'\<lparr>items := map (\<lambda>(t, it). animateItem pf (restartAnimation s) time
                                           (finitePosition t) it) (zip ts (items s))\<rparr>"
      by (auto simp: placeItems_def split: option.splits)
    have "map (\<lambda>it. endPosition (xy it)) (items s1) = map (\<lambda>t. Some (finitePosition t)) ts"
      using map_zip_animate(1) [OF length_allocateOverview [OF a]] by (simp add: s1)
    then show ?thesis using None a by (simp add: itemTargets_def)
  next
    case (Some c)
    with assms have s1: "items s1 = map (\<lambda>(t, it). animateItem pf (restartAnimation s) time t it)
                        (zip (editTargets pf solve w h s) (items s))"
      by (auto simp: placeItems_def)
    show ?thesis
      using Some map_zip_animate_id(1) [OF length_editTargets]
      by (simp add: itemTargets_def s1)
  qed
next
  show "map getConfig (items s1) = map getConfig (items s)"
    using assms map_zip_animate(2) [OF length_allocateOverview]
      map_zip_animate_id(2) [OF length_editTargets]
    by (auto simp: placeItems_def allocateOverview_fields split: option.splits)
next
  show "list_all hasXY (items s1)"
    using assms map_zip_animate(3) [OF length_allocateOverview]
      map_zip_animate_id(3) [OF length_editTargets]
    by (auto simp: placeItems_def split: option.splits)
next
  show "map_option getConfig (centerItem s1) = map_option getConfig (centerItem s)"
    "map_option (\<lambda>c. endPosition (xy c)) (centerItem s1)
          = map_option (\<lambda>c. Some (finitePosition (centeredAt w h (state c)))) (centerItem s)"
    "case centerItem s1 of None \<Rightarrow> True | Some c \<Rightarrow> hasXY c"
    "oldItems s1 = oldItems s" "parentAngle s1 = parentAngle s"
    "upcomingTransition s1 = upcomingTransition s" "transitionAngle s1 = transitionAngle s"
    "restartAnimation s1 = restartAnimation s" "backButton s1 = backButton s"
    "dragIndex s1 = dragIndex s" "dropIndex s1 = dropIndex s"
    "dropRow s1 = dropRow s" "dropColumn s1 = dropColumn s"
    using assms
    by (auto simp: placeItems_def allocateOverview_fields animateItem_simps split: option.splits)
qed


text \<open>
  The second part of the pass, when it does not throw: the end positions and the
  configurations of the items and of the center item, the back button and the drag and
  drop state are as before, and no widget loses its position.
\<close>

lemma animateFirstMatch_map:
  assumes "\<And>it. g (f it) = g it"
  shows "map g (animateFirstMatch f c its) = map g its"
  using assms by (induction its) auto

lemma applyTransition_Inr:
  assumes "applyTransition pf w h time s = Inr s2"
  shows "map (\<lambda>it. endPosition (xy it)) (items s2) = map (\<lambda>it. endPosition (xy it)) (items s)"
    and "map getConfig (items s2) = map getConfig (items s)"
    and "list_all hasXY (items s) \<Longrightarrow> list_all hasXY (items s2)"
    and "map_option getConfig (centerItem s2) = map_option getConfig (centerItem s)"
    and "map_option (\<lambda>c. endPosition (xy c)) (centerItem s2)
          = map_option (\<lambda>c. endPosition (xy c)) (centerItem s)"
    and "(case centerItem s of None \<Rightarrow> True | Some c \<Rightarrow> hasXY c)
          \<Longrightarrow> (case centerItem s2 of None \<Rightarrow> True | Some c \<Rightarrow> hasXY c)"
    and "list_all hasXY (oldItems s) \<Longrightarrow> list_all hasXY (oldItems s2)"
    and "backButton s2 = backButton s" "parentAngle s2 = parentAngle s"
    and "dragIndex s2 = dragIndex s" "dropIndex s2 = dropIndex s"
    and "dropRow s2 = dropRow s" "dropColumn s2 = dropColumn s"
proof -
  have slide: "s2 = s\<lparr>oldItems := map (slideOut pf (restartAnimation s) time ox oy) (oldItems s),
                      items := map (slideIn ox oy) (items s),
                      centerItem := map_option (slideIn ox oy) (centerItem s)\<rparr>
      \<Longrightarrow> map (\<lambda>it. endPosition (xy it)) (items s2) = map (\<lambda>it. endPosition (xy it)) (items s)
        \<and> map getConfig (items s2) = map getConfig (items s)
        \<and> (list_all hasXY (items s) \<longrightarrow> list_all hasXY (items s2))
        \<and> map_option getConfig (centerItem s2) = map_option getConfig (centerItem s)
        \<and> map_option (\<lambda>c. endPosition (xy c)) (centerItem s2)
          = map_option (\<lambda>c. endPosition (xy c)) (centerItem s)
        \<and> ((case centerItem s of None \<Rightarrow> True | Some c \<Rightarrow> hasXY c)
          \<longrightarrow> (case centerItem s2 of None \<Rightarrow> True | Some c \<Rightarrow> hasXY c))
        \<and> (list_all hasXY (oldItems s) \<longrightarrow> list_all hasXY (oldItems s2))
        \<and> backButton s2 = backButton s \<and> parentAngle s2 = parentAngle s
        \<and> dragIndex s2 = dragIndex s \<and> dropIndex s2 = dropIndex s
        \<and> dropRow s2 = dropRow s \<and> dropColumn s2 = dropColumn s" for ox oy
    by (cases "centerItem s")
       (auto simp: slideIn_simps comp_def list_all_iff slideOut_hasXY)
  have all: "map (\<lambda>it. endPosition (xy it)) (items s2) = map (\<lambda>it. endPosition (xy it)) (items s)
        \<and> map getConfig (items s2) = map getConfig (items s)
        \<and> (list_all hasXY (items s) \<longrightarrow> list_all hasXY (items s2))
        \<and> map_option getConfig (centerItem s2) = map_option getConfig (centerItem s)
        \<and> map_option (\<lambda>c. endPosition (xy c)) (centerItem s2)
          = map_option (\<lambda>c. endPosition (xy c)) (centerItem s)
        \<and> ((case centerItem s of None \<Rightarrow> True | Some c \<Rightarrow> hasXY c)
          \<longrightarrow> (case centerItem s2 of None \<Rightarrow> True | Some c \<Rightarrow> hasXY c))
        \<and> (list_all hasXY (oldItems s) \<longrightarrow> list_all hasXY (oldItems s2))
        \<and> backButton s2 = backButton s \<and> parentAngle s2 = parentAngle s
        \<and> dragIndex s2 = dragIndex s \<and> dropIndex s2 = dropIndex s
        \<and> dropRow s2 = dropRow s \<and> dropColumn s2 = dropColumn s"
  proof (cases "upcomingTransition s")
    case NONE
    with assms show ?thesis by (simp add: applyTransition_def)
  next
    case TRANSITION_A
    with assms show ?thesis
      by (auto simp: applyTransition_def animateItem_simps split: if_splits option.splits
          intro!: animateFirstMatch_hasXY)
  next
    case TRANSITION_B
    with assms show ?thesis
      by (auto simp: applyTransition_def animateItem_simps split: if_splits option.splits
          intro!: animateFirstMatch_hasXY)
  next
    case TRANSITION_C
    with assms have "\<exists>ox oy. s2 = s\<lparr>oldItems := map (slideOut pf (restartAnimation s) time ox oy) (oldItems s),
                      items := map (slideIn ox oy) (items s),
                      centerItem := map_option (slideIn ox oy) (centerItem s)\<rparr>"
      by (simp add: applyTransition_def Let_def split: if_splits) blast
    then show ?thesis using slide by blast
  next
    case TRANSITION_D
    with assms have "\<exists>ox oy. s2 = s\<lparr>oldItems := map (slideOut pf (restartAnimation s) time ox oy) (oldItems s),
                      items := map (slideIn ox oy) (items s),
                      centerItem := map_option (slideIn ox oy) (centerItem s)\<rparr>"
      by (simp add: applyTransition_def Let_def split: if_splits) blast
    then show ?thesis using slide by blast
  next
    case TRANSITION_E
    with assms show ?thesis by (simp add: applyTransition_def)
  qed
  from all show "map (\<lambda>it. endPosition (xy it)) (items s2) = map (\<lambda>it. endPosition (xy it)) (items s)"
    and "map getConfig (items s2) = map getConfig (items s)"
    and "list_all hasXY (items s) \<Longrightarrow> list_all hasXY (items s2)"
    and "map_option getConfig (centerItem s2) = map_option getConfig (centerItem s)"
    and "map_option (\<lambda>c. endPosition (xy c)) (centerItem s2)
          = map_option (\<lambda>c. endPosition (xy c)) (centerItem s)"
    and "(case centerItem s of None \<Rightarrow> True | Some c \<Rightarrow> hasXY c)
          \<Longrightarrow> (case centerItem s2 of None \<Rightarrow> True | Some c \<Rightarrow> hasXY c)"
    and "list_all hasXY (oldItems s) \<Longrightarrow> list_all hasXY (oldItems s2)"
    and "backButton s2 = backButton s" "parentAngle s2 = parentAngle s"
    and "dragIndex s2 = dragIndex s" "dropIndex s2 = dropIndex s"
    and "dropRow s2 = dropRow s" "dropColumn s2 = dropColumn s"
    by simp_all
qed


text \<open>
  A pass that completes has given the items, the center item and the back button their
  targets as end positions.
\<close>

lemma vfunc_size_allocate_Laid:
  assumes "vfunc_size_allocate pf solve w h frameTime s = Laid s'"
  shows "\<exists>ts. itemTargets pf solve w h s = Some ts
          \<and> endPositions s' =
              (map Some ts,
               map_option (\<lambda>c. Some (finitePosition (centeredAt w h (state c)))) (centerItem s),
               Some (backButtonTarget pf w h s))"
    and "map getConfig (items s') = map getConfig (items s)"
    and "map_option getConfig (centerItem s') = map_option getConfig (centerItem s)"
    and "list_all hasXY (items s')"
    and "case centerItem s' of None \<Rightarrow> True | Some c \<Rightarrow> hasXY c"
    and "list_all hasXY (oldItems s) \<Longrightarrow> list_all hasXY (oldItems s')"
    and "parentAngle s' = parentAngle s"
    and "dragIndex s' = dragIndex s" "dropIndex s' = dropIndex s"
    and "dropRow s' = dropRow s" "dropColumn s' = dropColumn s"
proof -
  let ?t = "layoutTime frameTime"
  from assms obtain s1 s2 where p: "placeItems pf solve w h ?t s = Some s1"
    and a: "applyTransition pf w h ?t (placeBackButton pf w h ?t s1) = Inr s2"
    and s': "s' = s2\<lparr>upcomingTransition := NONE, restartAnimation := False\<rparr>"
    by (auto simp: vfunc_size_allocate_def split: option.splits sum.splits)
  let ?b = "placeBackButton pf w h ?t s1"
  have b: "items ?b = items s1" "centerItem ?b = centerItem s1" "oldItems ?b = oldItems s1"
    "parentAngle ?b = parentAngle s1" "dragIndex ?b = dragIndex s1" "dropIndex ?b = dropIndex s1"
    "dropRow ?b = dropRow s1" "dropColumn ?b = dropColumn s1"
    "endPosition (backButton ?b) = Some (backButtonTarget pf w h s)"
    by (simp_all add: placeBackButton_def endPosition_setAnimation backButtonTarget_def
        placeItems_Some(8) [OF p])
  note P = placeItems_Some [OF p]
  note A = applyTransition_Inr [OF a]
  from P(1) obtain ts where ts: "itemTargets pf solve w h s = Some ts"
    "map (\<lambda>it. endPosition (xy it)) (items s1) = map Some ts" by blast
  have "endPositions s' =
              (map Some ts,
               map_option (\<lambda>c. Some (finitePosition (centeredAt w h (state c)))) (centerItem s),
               Some (backButtonTarget pf w h s))"
    by (simp add: endPositions_def s' A(1) A(5) A(8) b ts(2) P(5))
  with ts(1) show "\<exists>ts. itemTargets pf solve w h s = Some ts
          \<and> endPositions s' =
              (map Some ts,
               map_option (\<lambda>c. Some (finitePosition (centeredAt w h (state c)))) (centerItem s),
               Some (backButtonTarget pf w h s))" by blast
  show "map getConfig (items s') = map getConfig (items s)"
    by (simp add: s' A(2) b P(2))
  show "map_option getConfig (centerItem s') = map_option getConfig (centerItem s)"
    by (simp add: s' A(4) b P(4))
  show "list_all hasXY (items s')"
    using A(3) P(3) by (simp add: s' b)
  show "case centerItem s' of None \<Rightarrow> True | Some c \<Rightarrow> hasXY c"
    using A(6) P(6) by (simp add: s' b)
  show "list_all hasXY (oldItems s')" if "list_all hasXY (oldItems s)"
    using A(7) that by (simp add: s' b P(7))
  show "parentAngle s' = parentAngle s"
    "dragIndex s' = dragIndex s" "dropIndex s' = dropIndex s"
    "dropRow s' = dropRow s" "dropColumn s' = dropColumn s"
    by (simp_all add: s' A b P)
qed

text \<open>
  A pass with finite targets completes if the transition is \<open>TRANSITION_E\<close>, or if it is
  \<open>TRANSITION_C\<close>, there is a center item and every old item has a position.
\<close>

lemma vfunc_size_allocate_completes:
  assumes "itemTargets pf solve w h s = Some ts"
    and "upcomingTransition s = TRANSITION_E
         \<or> upcomingTransition s = TRANSITION_C \<and> centerItem s \<noteq> None
            \<and> list_all hasXY (oldItems s)"
  shows "\<exists>s'. vfunc_size_allocate pf solve w h frameTime s = Laid s'"
proof -
  let ?t = "layoutTime frameTime"
  from assms(1) obtain s1 where p: "placeItems pf solve w h ?t s = Some s1"
    using placeItems_None [of pf solve w h ?t s] by auto
  note P = placeItems_Some [OF p]
  let ?b = "placeBackButton pf w h ?t s1"
  have b: "items ?b = items s1" "centerItem ?b = centerItem s1" "oldItems ?b = oldItems s"
    "upcomingTransition ?b = upcomingTransition s"
    by (simp_all add: placeBackButton_def P)
  have c: "centerItem s \<noteq> None \<Longrightarrow> (case centerItem s1 of None \<Rightarrow> False | Some c \<Rightarrow> hasXY c)"
    using P(4) P(6) by (cases "centerItem s1"; cases "centerItem s") auto
  have "\<exists>s2. applyTransition pf w h ?t ?b = Inr s2"
    using assms(2) P(3) c by (auto simp: applyTransition_def b Let_def)
  then show ?thesis
    by (auto simp: vfunc_size_allocate_def p)
qed

text \<open>
  The targets of the items depend on the items, the center item, the parent angle and
  the drag and drop state only.
\<close>

lemma itemTargets_cong:
  assumes "items a = items b" "centerItem a = centerItem b" "parentAngle a = parentAngle b"
    "dragIndex a = dragIndex b" "dropIndex a = dropIndex b" "dropRow a = dropRow b"
    "dropColumn a = dropColumn b"
  shows "itemTargets pf solve w h a = itemTargets pf solve w h b"
proof -
  have angles: "computeItemAngles solve a = computeItemAngles solve b"
    unfolding computeItemAngles_def fixedAngles_def assms ..
  have shift: "dropShift a = dropShift b"
    unfolding dropShift_def fun_eq_iff assms by simp
  have grid: "gridTarget w h c r a = gridTarget w h c r b" for c r
    unfolding gridTarget_def fun_eq_iff shift by simp
  have edit: "editTargets pf solve w h a = editTargets pf solve w h b"
    unfolding editTargets_def angles assms ..
  have overview: "map_option snd (allocateOverview w h a) = map_option snd (allocateOverview w h b)"
    unfolding allocateOverview_def assms grid by (simp split: option.splits)
  have "map_option (\<lambda>r. map finitePosition (snd r)) (allocateOverview w h a)
        = map_option (\<lambda>r. map finitePosition (snd r)) (allocateOverview w h b)"
    using overview by (cases "allocateOverview w h a"; cases "allocateOverview w h b") auto
  then show ?thesis
    using assms(2) by (auto simp: itemTargets_def edit split: option.splits)
qed

text \<open>
  The fields \<open>setItems\<close> assigns; the old items keep their positions.
\<close>

lemma setItems_fields:
  "items (setItems ft configs sel centerConfig pa s) =
     map (\<lambda>c. createItem c (if centerConfig \<noteq> None then CHILD else GRID)) configs"
  "centerItem (setItems ft configs sel centerConfig pa s) =
     map_option (\<lambda>c. createItem c CENTER) centerConfig"
  "parentAngle (setItems ft configs sel centerConfig pa s) = pa"
  "dragIndex (setItems ft configs sel centerConfig pa s) = dragIndex s"
  "dropIndex (setItems ft configs sel centerConfig pa s) = dropIndex s"
  "dropRow (setItems ft configs sel centerConfig pa s) = dropRow s"
  "dropColumn (setItems ft configs sel centerConfig pa s) = dropColumn s"
  "upcomingTransition (setItems ft configs sel centerConfig pa s) =
     fst (classifyTransition configs centerConfig pa s)"
  "oldItems (setItems ft configs sel centerConfig pa s) =
     map hideItem (fst (clearOldItems ft s) @ items s
                   @ (case centerItem s of None \<Rightarrow> [] | Some c \<Rightarrow> [c]))"
  by (simp_all add: setItems_def split: prod.splits)

lemma setItems_oldItems_hasXY:
  assumes "laidOut s"
  shows "list_all hasXY (oldItems (setItems ft configs sel centerConfig pa s))"
  using assms
  by (auto simp: setItems_fields laidOut_def clearOldItems_def list_all_iff hideItem_def
      hasXY_def split: option.splits)

text \<open>
  The transition of a call whose configurations are those of the displayed items and of
  the displayed center item.
\<close>

lemma classify_again:
  assumes "map getConfig (items s) = configs"
    and "map_option getConfig (centerItem s) = centerConfig"
  shows "fst (classifyTransition configs centerConfig pa s) =
     (if (case centerConfig of None \<Rightarrow> False | Some c \<Rightarrow> list_ex (\<lambda>cfg. sameMenu cfg c) configs)
      then TRANSITION_C else TRANSITION_E)"
proof (cases "centerItem s")
  case None
  with assms(2) show ?thesis
    by (auto simp: classifyTransition_def wentOneLevelDeeper_def wentOneLevelUp_def)
next
  case (Some c)
  have "list_ex (\<lambda>it. sameMenu (getConfig it) k) (items s) = list_ex (\<lambda>cfg. sameMenu cfg k) configs"
    for k
    unfolding assms(1) [symmetric] by (simp add: list_ex_iff)
  with Some assms(2) show ?thesis
    by (auto simp: classifyTransition_def wentOneLevelDeeper_def wentOneLevelUp_def)
qed

text \<open>
  The layout pass on the menu with the single child \<open>m\<close>, at width 540, height 300 and
  frame time 0.
\<close>

lemma sameNameMenu_fields:
  "items sameNameMenu = [createItem (plainConfig ''m'') CHILD]"
  "centerItem sameNameMenu = Some (createItem (plainConfig ''m'') CENTER)"
  "oldItems sameNameMenu = []" "backButton sameNameMenu = None"
  "upcomingTransition sameNameMenu = TRANSITION_A" "restartAnimation sameNameMenu = True"
  "parentAngle sameNameMenu = None" "dragIndex sameNameMenu = None"
  "dropIndex sameNameMenu = None"
  by (simp_all add: sameNameMenu_def setItems_def classifyTransition_def clearOldItems_def
      initialEditor_def Let_def)

lemma sameNameMenu_angles:
  "computeItemAngles utils_computeItemAngles sameNameMenu = [Some 0]"
  by (simp add: computeItemAngles_def sameNameMenu_fields fixedAngles_def
      utils_computeItemAngles_def fixedEntries_def createItem_def plainConfig_def angleEntry_def
      Let_def)

lemma sameNameMenu_pass:
  "vfunc_size_allocate exactPlatform utils_computeItemAngles 540 300 0 sameNameMenu
     = Laid sameNameMenuLaid"
  by (simp add: vfunc_size_allocate_def placeItems_def placeBackButton_def applyTransition_def
      sameNameMenu_fields sameNameMenu_angles editTargets_def polarTarget_def readAngle_def
      backButtonTarget_def centeredAt_def finitePosition_def animateItem_def
      setAnimation_def exactPlatform_def layoutTime_def createItem_def sameNameMenuLaid_def
      animatedAt_def TRANSITION_DURATION_def enumerate_eq_zip Let_def)


lemma sameNameMenuLaid_endPositions:
  "endPositions sameNameMenuLaid =
     ([Some (Some 220, Some (- 82))], Some (Some (Some 210, Some 90)), Some (Some 220, Some 100))"
  by (simp add: endPositions_def endPosition_def sameNameMenuLaid_def animatedAt_def)

text \<open>
  The layout pass on the overview with two menus, at the same size and frame time.
\<close>

lemma twoMenuOverview_fields:
  "items twoMenuOverview = [createItem (plainConfig ''a'') GRID, createItem (plainConfig ''b'') GRID]"
  "centerItem twoMenuOverview = None"
  "oldItems twoMenuOverview = []" "backButton twoMenuOverview = None"
  "upcomingTransition twoMenuOverview = TRANSITION_E" "restartAnimation twoMenuOverview = True"
  "parentAngle twoMenuOverview = None" "dropRow twoMenuOverview = None"
  by (simp_all add: twoMenuOverview_def setItems_def classifyTransition_def clearOldItems_def
      wentOneLevelDeeper_def wentOneLevelUp_def initialEditor_def Let_def)

lemma twoMenuOverview_pass:
  "vfunc_size_allocate exactPlatform utils_computeItemAngles 540 300 0 twoMenuOverview
     = Laid twoMenuGrid"
proof -
  have fl: "\<lceil>(1::real) / 2\<rceil> = 1"
    by (simp add: ceiling_eq_iff)
  have up: "[0..<2] = [0, 1]"
    by (simp add: upt_conv_Cons)
  show ?thesis
    by (simp add: vfunc_size_allocate_def placeItems_def placeBackButton_def applyTransition_def
      twoMenuOverview_fields allocateOverview_def gridShape_def gridTarget_def gridCell_def
      gridOffset_def dropShift_def fl up
      backButtonTarget_def centeredAt_def finitePosition_def animateItem_def
      setAnimation_def exactPlatform_def layoutTime_def createItem_def twoMenuGrid_def
      animatedAt_def TRANSITION_DURATION_def Let_def)
qed

lemma twoMenuGrid_endPositions:
  "endPositions twoMenuGrid =
     ([Some (Some 140, Some 85), Some (Some 270, Some 85)], None, Some (Some 220, Some 100))"
  by (simp add: endPositions_def endPosition_def twoMenuGrid_def animatedAt_def
      twoMenuOverview_fields)

text \<open>
  Claim C9, amended. On an editor all of whose widgets have a position, \<open>setItems\<close> is
  called twice with the same configurations, selection, center configuration and parent
  angle, and a layout pass of the same size follows each call. If the first pass
  completes, the second one completes too, and it gives the items, the center item and
  the back button the end positions they have after the first pass, for every platform,
  solver, size and time. The transition of the second call is \<open>TRANSITION_C\<close> when one of
  the configurations has the name and the icon of the center configuration, and
  \<open>TRANSITION_E\<close> otherwise.
\<close>

theorem setItems_twice:
  assumes "laidOut s"
    and "vfunc_size_allocate pf solve w h t1 (setItems ft1 configs sel centerConfig pa s) = Laid s1"
  shows "\<exists>s2. vfunc_size_allocate pf solve w h t2 (setItems ft2 configs sel centerConfig pa s1)
               = Laid s2
             \<and> endPositions s2 = endPositions s1
             \<and> upcomingTransition (setItems ft2 configs sel centerConfig pa s1) =
                 (if (case centerConfig of
                        None \<Rightarrow> False
                      | Some c \<Rightarrow> list_ex (\<lambda>cfg. sameMenu cfg c) configs)
                  then TRANSITION_C else TRANSITION_E)"
proof -
  let ?a = "setItems ft1 configs sel centerConfig pa s"
  let ?b = "setItems ft2 configs sel centerConfig pa s1"
  note L = vfunc_size_allocate_Laid [OF assms(2)]
  have cfgs: "map getConfig (items s1) = configs"
    by (simp add: L(2) setItems_fields comp_def createItem_def)
  have cc: "map_option getConfig (centerItem s1) = centerConfig"
    by (simp add: L(3) setItems_fields option.map_comp comp_def createItem_def option.map_ident)
  have tr: "upcomingTransition ?b =
                 (if (case centerConfig of
                        None \<Rightarrow> False
                      | Some c \<Rightarrow> list_ex (\<lambda>cfg. sameMenu cfg c) configs)
                  then TRANSITION_C else TRANSITION_E)"
    by (simp only: setItems_fields(8) classify_again [OF cfgs cc])
  have same: "itemTargets pf solve w h ?b = itemTargets pf solve w h ?a"
    by (rule itemTargets_cong) (simp_all add: setItems_fields L)
  have backEq: "backButtonTarget pf w h ?b = backButtonTarget pf w h ?a"
    by (simp add: backButtonTarget_def setItems_fields)
  from L(1) obtain ts where ts: "itemTargets pf solve w h ?a = Some ts"
    and e1: "endPositions s1 =
              (map Some ts,
               map_option (\<lambda>c. Some (finitePosition (centeredAt w h (state c)))) (centerItem ?a),
               Some (backButtonTarget pf w h ?a))" by blast
  have laid1: "laidOut s1"
    using L(4) L(5) L(6) [OF setItems_oldItems_hasXY [OF assms(1)]] by (simp add: laidOut_def)
  have old: "list_all hasXY (oldItems ?b)"
    by (rule setItems_oldItems_hasXY [OF laid1])
  have center: "upcomingTransition ?b = TRANSITION_C \<Longrightarrow> centerItem ?b \<noteq> None"
    unfolding tr by (cases centerConfig) (simp_all add: setItems_fields)
  have "upcomingTransition ?b = TRANSITION_E
         \<or> upcomingTransition ?b = TRANSITION_C \<and> centerItem ?b \<noteq> None
            \<and> list_all hasXY (oldItems ?b)"
    using old center tr by (cases "upcomingTransition ?b = TRANSITION_C") (auto split: if_splits)
  from vfunc_size_allocate_completes [OF same [unfolded ts] this]
  obtain s2 where s2: "vfunc_size_allocate pf solve w h t2 ?b = Laid s2" by blast
  from vfunc_size_allocate_Laid(1) [OF s2] ts same
  have e2: "endPositions s2 =
              (map Some ts,
               map_option (\<lambda>c. Some (finitePosition (centeredAt w h (state c)))) (centerItem ?b),
               Some (backButtonTarget pf w h ?b))" by auto
  have "endPositions s2 = endPositions s1"
    by (simp add: e1 e2 backEq setItems_fields(2))
  with s2 tr show ?thesis by blast
qed

text \<open>
  The theorem on the menu with the single child \<open>m\<close> and on the overview with two
  menus, starting from the fields of the constructor: the first pass gives
  \<open>sameNameMenuLaid\<close> and \<open>twoMenuGrid\<close>, and the pass after the second call, 16 ms
  later, completes with the same end positions, after a \<open>TRANSITION_C\<close> for the menu and a
  \<open>TRANSITION_E\<close> for the overview.
\<close>

theorem setItems_twice_witness:
  "laidOut initialEditor
   \<and> vfunc_size_allocate exactPlatform utils_computeItemAngles 540 300 0
        (setItems None [plainConfig ''m''] None (Some (plainConfig ''m'')) None initialEditor)
       = Laid sameNameMenuLaid
   \<and> (\<exists>s2. vfunc_size_allocate exactPlatform utils_computeItemAngles 540 300 16000
               (setItems (Some 16000) [plainConfig ''m''] None (Some (plainConfig ''m'')) None
                  sameNameMenuLaid)
              = Laid s2
            \<and> endPositions s2 =
                ([Some (Some 220, Some (- 82))], Some (Some (Some 210, Some 90)),
                 Some (Some 220, Some 100))
            \<and> upcomingTransition
                (setItems (Some 16000) [plainConfig ''m''] None (Some (plainConfig ''m'')) None
                   sameNameMenuLaid)
              = TRANSITION_C)
   \<and> vfunc_size_allocate exactPlatform utils_computeItemAngles 540 300 0
        (setItems None [plainConfig ''a'', plainConfig ''b''] None None None initialEditor)
       = Laid twoMenuGrid
   \<and> (\<exists>s2. vfunc_size_allocate exactPlatform utils_computeItemAngles 540 300 16000
               (setItems (Some 16000) [plainConfig ''a'', plainConfig ''b''] None None None
                  twoMenuGrid)
              = Laid s2
            \<and> endPositions s2 =
                ([Some (Some 140, Some 85), Some (Some 270, Some 85)], None,
                 Some (Some 220, Some 100))
            \<and> upcomingTransition
                (setItems (Some 16000) [plainConfig ''a'', plainConfig ''b''] None None None
                   twoMenuGrid)
              = TRANSITION_E)"
proof -
  have l: "laidOut initialEditor"
    by (simp add: laidOut_def initialEditor_def)
  have p: "vfunc_size_allocate exactPlatform utils_computeItemAngles 540 300 0
        (setItems None [plainConfig ''m''] None (Some (plainConfig ''m'')) None initialEditor)
       = Laid sameNameMenuLaid"
    using sameNameMenu_pass by (simp add: sameNameMenu_def)
  have q: "vfunc_size_allocate exactPlatform utils_computeItemAngles 540 300 0
        (setItems None [plainConfig ''a'', plainConfig ''b''] None None None initialEditor)
       = Laid twoMenuGrid"
    using twoMenuOverview_pass by (simp add: twoMenuOverview_def)
  have c: "(case Some (plainConfig ''m'') of
              None \<Rightarrow> False
            | Some c \<Rightarrow> list_ex (\<lambda>cfg. sameMenu cfg c) [plainConfig ''m''])"
    by (simp add: sameMenu_def)
  have d: "\<not> (case None of
              None \<Rightarrow> False
            | Some c \<Rightarrow> list_ex (\<lambda>cfg. sameMenu cfg c) [plainConfig ''a'', plainConfig ''b''])"
    by simp
  show ?thesis
    using setItems_twice [OF l p, of 16000 "Some 16000"]
      setItems_twice [OF l q, of 16000 "Some 16000"] l p q
    by (simp only: c d if_True if_False sameNameMenuLaid_endPositions twoMenuGrid_endPositions
        simp_thms)
qed

text \<open>
  The claim as stated classifies the second call as \<open>TRANSITION_E\<close>. For a menu whose
  child has its own name and icon the second call is classified as \<open>TRANSITION_C\<close>, both
  directly after the first call and after the layout pass that follows it.
\<close>

theorem setItems_twice_counterexample:
  "upcomingTransition
     (setItems None [plainConfig ''m''] None (Some (plainConfig ''m'')) None sameNameMenu)
     = TRANSITION_C
   \<and> upcomingTransition
     (setItems None [plainConfig ''m''] None (Some (plainConfig ''m'')) None sameNameMenu)
     \<noteq> TRANSITION_E
   \<and> vfunc_size_allocate exactPlatform utils_computeItemAngles 540 300 0 sameNameMenu
     = Laid sameNameMenuLaid
   \<and> upcomingTransition
     (setItems None [plainConfig ''m''] None (Some (plainConfig ''m'')) None sameNameMenuLaid)
     = TRANSITION_C"
proof -
  have "upcomingTransition
     (setItems None [plainConfig ''m''] None (Some (plainConfig ''m'')) None sameNameMenu)
     = TRANSITION_C"
    by (simp add: sameNameMenu_def setItems_def classifyTransition_def clearOldItems_def
      wentOneLevelDeeper_def initialEditor_def sameMenu_def createItem_def Let_def)
  moreover have "upcomingTransition
     (setItems None [plainConfig ''m''] None (Some (plainConfig ''m'')) None sameNameMenuLaid)
     = TRANSITION_C"
    by (simp add: sameNameMenuLaid_def setItems_fields classifyTransition_def
      wentOneLevelDeeper_def sameMenu_def createItem_def)
  ultimately show ?thesis
    using sameNameMenu_pass by simp
qed

text \<open>
  Without a layout pass between the two calls the items of the first call become old
  items that have no position, and the pass after the second call throws on
  \<open>item.x.end\<close> of the first of them.
\<close>

lemma setItems_twice_without_pass:
  "vfunc_size_allocate exactPlatform utils_computeItemAngles 540 300 0
     (setItems None [plainConfig ''m''] None (Some (plainConfig ''m'')) None sameNameMenu)
     = Throws TypeError"
proof -
  let ?s = "setItems None [plainConfig ''m''] None (Some (plainConfig ''m'')) None sameNameMenu"
  have tr: "upcomingTransition ?s = TRANSITION_C"
    by (simp add: sameNameMenu_def setItems_def classifyTransition_def clearOldItems_def
      wentOneLevelDeeper_def initialEditor_def sameMenu_def createItem_def Let_def)
  have old: "\<not> list_all hasXY (oldItems ?s)"
    by (simp add: setItems_fields sameNameMenu_fields clearOldItems_def hideItem_def hasXY_def
        createItem_def)
  obtain s1 where p: "placeItems exactPlatform utils_computeItemAngles 540 300 (layoutTime 0) ?s
                      = Some s1"
    by (simp add: placeItems_def setItems_fields)
  note P = placeItems_Some [OF p]
  have "applyTransition exactPlatform 540 300 (layoutTime 0)
          (placeBackButton exactPlatform 540 300 (layoutTime 0) s1) = Inl TypeError"
    using old by (simp add: applyTransition_def placeBackButton_def P tr Let_def)
  then show ?thesis
    by (simp add: vfunc_size_allocate_def p)
qed

end
